theory Spec2Isabelle
  imports Complex_Main
begin

section \<open>The outside world of the generator\<close>

text \<open>
  The clinic data generator (\<^verbatim>\<open>src/data_generator.py\<close>) is a sequential batch program
  whose only inputs are the pseudo-random stream of Python's \<^verbatim>\<open>random\<close> module, the
  strings produced by the Faker library, the wall clock read by \<^verbatim>\<open>datetime.now()\<close>
  and the SQLite store. The first three are modelled as streams that the program
  consumes from the front; every property below is proved for all streams.

  Exceptions are values: a computation returns \<open>Inl e\<close> when the Python code raises.
\<close>

datatype error =
  IndexError | KeyError | ValueError | ZeroDivisionError | TypeError | DatabaseError

record world =
  rand_src :: "nat \<Rightarrow> nat"
  fake_src :: "nat \<Rightarrow> string"
  clock_src :: "nat \<Rightarrow> int"

type_synonym 'a gen = "world \<Rightarrow> error + ('a \<times> world)"

definition advance :: "nat \<Rightarrow> (nat \<Rightarrow> 'a) \<Rightarrow> nat \<Rightarrow> 'a" where
  "advance k f = (\<lambda>i. f (i + k))"

definition gen_return :: "'a \<Rightarrow> 'a gen" where
  "gen_return x = (\<lambda>w. Inr (x, w))"

definition gen_raise :: "error \<Rightarrow> 'a gen" where
  "gen_raise e = (\<lambda>w. Inl e)"

definition gen_bind :: "'a gen \<Rightarrow> ('a \<Rightarrow> 'b gen) \<Rightarrow> 'b gen" where
  "gen_bind m f = (\<lambda>w. case m w of Inl e \<Rightarrow> Inl e | Inr (x, w') \<Rightarrow> f x w')"

definition returned :: "error + ('a \<times> world) \<Rightarrow> 'a option" where
  "returned r = (case r of Inl e \<Rightarrow> None | Inr (x, w) \<Rightarrow> Some x)"

text \<open>
  \<^verbatim>\<open>for x in xs: ...; results.append(r)\<close>: the body runs once per element, in order,
  threading the world; an exception in the body ends the loop.
\<close>

fun for_each :: "'i list \<Rightarrow> ('i \<Rightarrow> 'a gen) \<Rightarrow> 'a list gen" where
  "for_each [] body = gen_return []"
| "for_each (x # xs) body =
     gen_bind (body x) (\<lambda>r. gen_bind (for_each xs body) (\<lambda>rs. gen_return (r # rs)))"

subsection \<open>The \<^verbatim>\<open>random\<close> module\<close>

text \<open>
  \<open>rand_raw\<close> is one output of the underlying generator. \<^verbatim>\<open>random.random()\<close> is a
  multiple of \<open>2\<^sup>-\<^sup>5\<^sup>3\<close> in \<open>[0, 1)\<close>; \<^verbatim>\<open>randint(a, b)\<close> is \<open>a\<close> plus a number below
  \<open>b - a + 1\<close> and raises \<^verbatim>\<open>ValueError\<close> on an empty range; \<^verbatim>\<open>choice\<close> raises
  \<^verbatim>\<open>IndexError\<close> on an empty sequence. Weights and probabilities are rationals: the
  rounding of binary floating point is not part of the model.
\<close>

definition rand_raw :: "nat gen" where
  "rand_raw = (\<lambda>w. Inr (rand_src w 0, w\<lparr>rand_src := advance 1 (rand_src w)\<rparr>))"

definition random_random :: "rat gen" where
  "random_random =
     gen_bind rand_raw (\<lambda>r. gen_return (of_nat (r mod 9007199254740992) / 9007199254740992))"

definition random_randint :: "int \<Rightarrow> int \<Rightarrow> int gen" where
  "random_randint a b =
     (if b < a then gen_raise ValueError
      else gen_bind rand_raw (\<lambda>r. gen_return (a + int (r mod nat (b - a + 1)))))"

definition random_choice :: "'a list \<Rightarrow> 'a gen" where
  "random_choice seq =
     (if seq = [] then gen_raise IndexError
      else gen_bind rand_raw (\<lambda>r. gen_return (seq ! (r mod length seq))))"

definition random_uniform :: "rat \<Rightarrow> rat \<Rightarrow> rat gen" where
  "random_uniform a b = gen_bind random_random (\<lambda>u. gen_return (a + (b - a) * u))"

text \<open>
  \<^verbatim>\<open>int(random.triangular(low, high, mode))\<close>: the float drawn lies in \<open>[low, high]\<close>;
  only this range is modelled, not the shape of the distribution.
\<close>

definition random_triangular_int :: "int \<Rightarrow> int \<Rightarrow> int \<Rightarrow> int gen" where
  "random_triangular_int low high mode = random_randint low high"

fun accumulate :: "rat \<Rightarrow> rat list \<Rightarrow> rat list" where
  "accumulate acc [] = []"
| "accumulate acc (x # xs) = (acc + x) # accumulate (acc + x) xs"

function bisect_right :: "rat list \<Rightarrow> rat \<Rightarrow> nat \<Rightarrow> nat \<Rightarrow> nat" where
  "bisect_right a x lo hi =
     (if lo < hi
      then (if x < a ! ((lo + hi) div 2)
            then bisect_right a x lo ((lo + hi) div 2)
            else bisect_right a x ((lo + hi) div 2 + 1) hi)
      else lo)"
  by pat_completeness auto
termination
  by (relation "measure (\<lambda>(a, x, lo, hi). hi - lo)") auto

declare bisect_right.simps [simp del]

text \<open>
  \<^verbatim>\<open>random.choices(population, weights)[0]\<close>: cumulative weights, one uniform draw
  scaled by the total, and a bisection over all but the last cumulative weight.
\<close>

definition random_choices :: "'a list \<Rightarrow> rat list \<Rightarrow> 'a gen" where
  "random_choices population weights =
     (let cum_weights = accumulate 0 weights in
      if cum_weights = [] \<or> last cum_weights \<le> 0 then gen_raise ValueError
      else gen_bind random_random (\<lambda>u. gen_return
             (population ! bisect_right cum_weights (u * last cum_weights) 0
                             (length population - 1))))"

text \<open>
  \<^verbatim>\<open>_weighted_choice(choices)\<close>: a dictionary is an association list in insertion
  order; unpacking \<^verbatim>\<open>zip(*choices.items())\<close> of an empty dictionary raises.
\<close>

definition weighted_choice :: "('a \<times> rat) list \<Rightarrow> 'a gen" where
  "weighted_choice choices =
     (if choices = [] then gen_raise ValueError
      else random_choices (map fst choices) (map snd choices))"

subsection \<open>Faker and the clock\<close>

text \<open>Every Faker method call takes the next string of the Faker stream.\<close>

definition fake :: "string gen" where
  "fake = (\<lambda>w. Inr (fake_src w 0, w\<lparr>fake_src := advance 1 (fake_src w)\<rparr>))"

text \<open>
  A \<^verbatim>\<open>datetime\<close> is a number of microseconds since 0001-01-01 00:00 (a Monday), a
  \<^verbatim>\<open>date\<close> a number of days since that day, a \<^verbatim>\<open>time\<close> a number of microseconds since
  midnight, a \<^verbatim>\<open>timedelta\<close> a number of microseconds. The bounds of Python's
  \<^verbatim>\<open>datetime\<close> (years 1 to 9999) are not modelled.
\<close>

definition timedelta_days :: "int \<Rightarrow> int" where
  "timedelta_days d = d * 86400000000"

definition timedelta_hours :: "int \<Rightarrow> int" where
  "timedelta_hours h = h * 3600000000"

definition timedelta_minutes :: "int \<Rightarrow> int" where
  "timedelta_minutes m = m * 60000000"

definition datetime_date :: "int \<Rightarrow> int" where
  "datetime_date dt = dt div 86400000000"

definition datetime_time :: "int \<Rightarrow> int" where
  "datetime_time dt = dt mod 86400000000"

definition datetime_combine :: "int \<Rightarrow> int \<Rightarrow> int" where
  "datetime_combine d t = timedelta_days d + t"

definition weekday :: "int \<Rightarrow> int" where
  "weekday dt = datetime_date dt mod 7"

definition datetime_now :: "int gen" where
  "datetime_now = (\<lambda>w. Inr (clock_src w 0, w\<lparr>clock_src := advance 1 (clock_src w)\<rparr>))"

text \<open>
  \<open>ticks k m\<close>: a run of \<open>m\<close> that returns has read the clock exactly \<open>k\<close> times.
\<close>

definition ticks :: "nat \<Rightarrow> 'a gen \<Rightarrow> bool" where
  "ticks k m = (\<forall>w x w'. m w = Inr (x, w') \<longrightarrow> clock_src w' = advance k (clock_src w))"

text \<open>\<^verbatim>\<open>str(n)\<close> for a non-negative integer.\<close>

function string_of_nat :: "nat \<Rightarrow> string" where
  "string_of_nat n =
     (if n < 10 then [''0123456789'' ! n]
      else string_of_nat (n div 10) @ [''0123456789'' ! (n mod 10)])"
  by pat_completeness auto
termination
  by (relation "measure id") auto

declare string_of_nat.simps [simp del]

section \<open>Patients\<close>

record patient =
  p_first_name :: string
  p_last_name :: string
  p_email :: string
  p_phone :: string
  p_date_of_birth :: int
  p_gender :: string
  p_address :: string
  p_insurance_type :: string
  p_primary_condition :: string
  p_registration_date :: int
  p_emergency_contact :: string
  p_emergency_phone :: string
  p_notes :: "string option"

definition PATIENT_AGE_WEIGHTS :: "((int \<times> int) \<times> rat) list" where
  "PATIENT_AGE_WEIGHTS =
     [((25, 35), 15 / 100), ((35, 50), 25 / 100), ((50, 65), 35 / 100),
      ((65, 80), 20 / 100), ((80, 90), 5 / 100)]"

definition CONDITION_DISTRIBUTION :: "(string \<times> rat) list" where
  "CONDITION_DISTRIBUTION =
     [(''Lower Back Pain'', 25 / 100), (''Neck Pain'', 15 / 100), (''Knee Injury'', 12 / 100),
      (''Shoulder Pain'', 10 / 100), (''Sports Injury'', 8 / 100),
      (''Post-Surgery Rehab'', 7 / 100), (''Arthritis Management'', 6 / 100),
      (''Postural Problems'', 5 / 100), (''Sciatica'', 4 / 100), (''Tennis Elbow'', 3 / 100),
      (''Fibromyalgia'', 2 / 100), (''Other'', 3 / 100)]"

definition generate_realistic_age :: "int gen" where
  "generate_realistic_age =
     gen_bind (weighted_choice PATIENT_AGE_WEIGHTS) (\<lambda>age_range.
       random_randint (fst age_range) (snd age_range))"

definition replace_newlines :: "string \<Rightarrow> string" where
  "replace_newlines s = concat (map (\<lambda>c. if c = CHR 0x0A then '', '' else [c]) s)"

text \<open>One iteration of the loop of \<^verbatim>\<open>generate_patients\<close>.\<close>

definition generate_patient :: "patient gen" where
  "generate_patient =
     gen_bind generate_realistic_age (\<lambda>age.
     gen_bind (random_choice [''M'', ''F'']) (\<lambda>gender.
     gen_bind datetime_now (\<lambda>now1.
     gen_bind (random_randint 30 180) (\<lambda>reg_days_ago.
     gen_bind datetime_now (\<lambda>now2.
     gen_bind fake (\<lambda>first_name.
     gen_bind fake (\<lambda>last_name.
     gen_bind fake (\<lambda>email.
     gen_bind fake (\<lambda>phone.
     gen_bind fake (\<lambda>address.
     gen_bind (weighted_choice
                [(''Public'', 70 / 100), (''Private'', 25 / 100), (''Self-pay'', 5 / 100)])
       (\<lambda>insurance_type.
     gen_bind (weighted_choice CONDITION_DISTRIBUTION) (\<lambda>primary_condition.
     gen_bind fake (\<lambda>emergency_contact.
     gen_bind fake (\<lambda>emergency_phone.
     gen_bind random_random (\<lambda>r.
     gen_bind (if r < 3 / 10 then gen_bind fake (\<lambda>t. gen_return (Some t))
               else gen_return None) (\<lambda>notes.
     gen_return
       \<lparr>p_first_name = first_name, p_last_name = last_name, p_email = email,
        p_phone = phone, p_date_of_birth = datetime_date now1 - age * 365,
        p_gender = gender, p_address = replace_newlines address,
        p_insurance_type = insurance_type, p_primary_condition = primary_condition,
        p_registration_date = datetime_date now2 - reg_days_ago,
        p_emergency_contact = emergency_contact, p_emergency_phone = emergency_phone,
        p_notes = notes\<rparr>))))))))))))))))"

definition generate_patients :: "int \<Rightarrow> patient list gen" where
  "generate_patients num_patients = for_each [0..num_patients - 1] (\<lambda>_. generate_patient)"

section \<open>Appointments and cancellations\<close>

record appointment =
  apt_appointment_id :: int
  apt_patient_id :: int
  apt_therapist_id :: int
  apt_treatment_id :: int
  apt_appointment_date :: int
  apt_appointment_time :: int
  apt_duration_minutes :: int
  apt_status :: string
  apt_booking_date :: int
  apt_booking_method :: string
  apt_price :: rat
  apt_insurance_covered :: bool
  apt_copay_amount :: rat
  apt_notes :: "string option"
  apt_reminder_sent :: bool
  apt_check_in_time :: "int option"
  apt_treatment_start_time :: "int option"
  apt_treatment_end_time :: "int option"

record cancellation =
  cancel_appointment_id :: int
  cancel_cancelled_by :: string
  cancel_cancellation_date :: int
  cancel_hours_before_appointment :: int
  cancel_reason_category :: string
  cancel_reason_detail :: string
  cancel_refund_issued :: bool
  cancel_refund_amount :: rat
  cancel_rescheduled :: bool

text \<open>
  The fields of the generator object that the generation methods read; \<^verbatim>\<open>__init__\<close>
  sets both from the clock.
\<close>

record generator =
  CLINIC_START_DATE :: int
  CLINIC_END_DATE :: int

definition init :: "generator gen" where
  "init =
     gen_bind datetime_now (\<lambda>now1.
     gen_bind datetime_now (\<lambda>now2.
     gen_return \<lparr>CLINIC_START_DATE = now1 - timedelta_days 180,
                 CLINIC_END_DATE = now2 + timedelta_days 30\<rparr>))"

definition CANCELLATION_REASONS :: "(string \<times> rat) list" where
  "CANCELLATION_REASONS =
     [(''Personal'', 30 / 100), (''Medical'', 20 / 100), (''Work'', 18 / 100),
      (''Transportation'', 12 / 100), (''Weather'', 10 / 100), (''Other'', 10 / 100)]"

text \<open>\<^verbatim>\<open>d[k]\<close> on a dictionary raises \<^verbatim>\<open>KeyError\<close> for a missing key.\<close>

definition dict_get :: "('k \<rightharpoonup> 'v) \<Rightarrow> 'k \<Rightarrow> 'v gen" where
  "dict_get d k = (case d k of None \<Rightarrow> gen_raise KeyError | Some v \<Rightarrow> gen_return v)"

text \<open>
  \<^verbatim>\<open>round(x, 2)\<close>, as rounding to the nearest hundredth with ties to the even
  neighbour.
\<close>

definition round_half_even :: "rat \<Rightarrow> int" where
  "round_half_even x =
     (let f = \<lfloor>x\<rfloor>; d = x - of_int f in
      if d < 1 / 2 then f else if 1 / 2 < d then f + 1 else if even f then f else f + 1)"

definition round2 :: "rat \<Rightarrow> rat" where
  "round2 x = of_int (round_half_even (x * 100)) / 100"

text \<open>\<^verbatim>\<open>date.replace(hour=h, minute=m, second=0, microsecond=0)\<close>.\<close>

definition datetime_replace :: "int \<Rightarrow> int \<Rightarrow> int \<Rightarrow> int" where
  "datetime_replace dt h m =
     timedelta_days (datetime_date dt) + timedelta_hours h + timedelta_minutes m"

definition get_business_hours_datetime :: "int \<Rightarrow> int gen" where
  "get_business_hours_datetime date =
     (let peak_morning = [9, 10, 11];
          peak_afternoon = [14, 15];
          regular_hours = [8] @ [12, 13] @ [16] in
      gen_bind random_random (\<lambda>r.
      gen_bind (random_choice (if r < 7 / 10 then peak_morning @ peak_afternoon
                               else regular_hours)) (\<lambda>hour.
      gen_bind (random_choice [0, 15, 30, 45]) (\<lambda>minute.
      gen_return (datetime_replace date hour minute)))))"

definition generate_cancellation :: "int \<Rightarrow> int \<Rightarrow> cancellation gen" where
  "generate_cancellation appointment_id appointment_datetime =
     gen_bind (weighted_choice
                [(1, 15 / 100), (4, 20 / 100), (24, 30 / 100), (48, 20 / 100),
                 (168, 15 / 100)]) (\<lambda>max_hours_before.
     gen_bind (random_randint 1 max_hours_before) (\<lambda>hours_before.
     gen_bind (weighted_choice CANCELLATION_REASONS) (\<lambda>reason_category.
     gen_bind (dict_get (map_of
                [(''Personal'', [''Family emergency'', ''Personal commitment'',
                    ''Childcare issues'', ''Travel conflict'']),
                 (''Medical'', [''Feeling unwell'', ''Other medical appointment'',
                    ''Injury worsened'', ''Doctor advised rest'']),
                 (''Work'', [''Work meeting'', ''Unable to leave work'', ''Business travel'',
                    ''Shift change'']),
                 (''Transportation'', [''Car trouble'', ''Public transport delay'',
                    ''Traffic jam'', ''No ride available'']),
                 (''Weather'', [''Heavy rain'', ''Snow storm'', ''Icy roads'',
                    ''Severe weather warning'']),
                 (''Other'', [''Forgot appointment'', ''Double booked'',
                    ''Financial reasons'', ''No longer needed''])]) reason_category)
       (\<lambda>details.
     gen_bind (random_choice details) (\<lambda>reason_detail.
     gen_bind (if 24 \<le> hours_before
               then gen_bind (random_choice [True, False]) (\<lambda>refund_issued.
                      gen_return (refund_issued, if refund_issued then 25 else 0))
               else gen_return (False, 0)) (\<lambda>(refund_issued, refund_amount).
     gen_bind (weighted_choice
                [(''Patient'', 85 / 100), (''Clinic'', 10 / 100), (''Therapist'', 5 / 100)])
       (\<lambda>cancelled_by.
     gen_bind (random_choice [True, False]) (\<lambda>rescheduled.
     gen_return
       \<lparr>cancel_appointment_id = appointment_id, cancel_cancelled_by = cancelled_by,
        cancel_cancellation_date = appointment_datetime - timedelta_hours hours_before,
        cancel_hours_before_appointment = hours_before,
        cancel_reason_category = reason_category, cancel_reason_detail = reason_detail,
        cancel_refund_issued = refund_issued, cancel_refund_amount = refund_amount,
        cancel_rescheduled = rescheduled\<rparr>))))))))"

text \<open>
  The dictionary comprehension over the rows of
  \<^verbatim>\<open>SELECT treatment_id, duration_minutes, base_price FROM treatments\<close>: a later row
  with the same key replaces an earlier one.
\<close>

definition treatment_info :: "(int \<times> int \<times> rat) list \<Rightarrow> (int \<rightharpoonup> int \<times> rat)" where
  "treatment_info rows = map_of (rev rows)"

text \<open>
  One iteration of the loop of \<^verbatim>\<open>generate_appointments\<close>, in four steps: the date
  and time of the appointment, the price, the status, and the timestamps of a completed
  appointment.
\<close>

definition appointment_slot :: "generator \<Rightarrow> int gen" where
  "appointment_slot self =
     gen_bind (random_triangular_int 0 180 120) (\<lambda>days_from_start.
     gen_bind (let appointment_date = CLINIC_START_DATE self + timedelta_days days_from_start in
               if 5 \<le> weekday appointment_date
               then gen_bind random_random (\<lambda>r.
                      gen_return (if r < 9 / 10 then appointment_date + timedelta_days 2
                                  else appointment_date))
               else gen_return appointment_date) (\<lambda>appointment_date.
     get_business_hours_datetime appointment_date))"

definition appointment_price :: "rat \<Rightarrow> (bool \<times> rat \<times> rat) gen" where
  "appointment_price base_price =
     gen_bind (random_choice [True, False]) (\<lambda>insurance_covered.
     if insurance_covered
     then gen_bind (random_uniform (1 / 10) (3 / 10)) (\<lambda>u.
            let copay_amount = round2 (base_price * u) in
            gen_return (insurance_covered, copay_amount, copay_amount))
     else gen_return (insurance_covered, 0, base_price))"

definition appointment_status :: "int \<Rightarrow> string gen" where
  "appointment_status appointment_datetime =
     (let status_weights =
        [(''Completed'', 75 / 100), (''Cancelled'', 15 / 100), (''No-show'', 7 / 100),
         (''Scheduled'', 3 / 100)] in
      gen_bind datetime_now (\<lambda>now.
      if now < appointment_datetime then gen_return ''Scheduled''
      else weighted_choice status_weights))"

definition treatment_timestamps :: "appointment \<Rightarrow> int \<Rightarrow> int \<Rightarrow> appointment gen" where
  "treatment_timestamps appointment appointment_datetime duration =
     gen_bind (random_randint 5 15) (\<lambda>before.
     gen_bind (random_randint 0 10) (\<lambda>after.
     gen_bind (random_randint (- 5) 15) (\<lambda>jitter.
     let check_in_time = appointment_datetime - timedelta_minutes before;
         treatment_start = appointment_datetime + timedelta_minutes after;
         treatment_end = treatment_start + timedelta_minutes (duration + jitter) in
     gen_return (appointment
       \<lparr>apt_check_in_time := Some check_in_time,
        apt_treatment_start_time := Some treatment_start,
        apt_treatment_end_time := Some treatment_end\<rparr>))))"

definition generate_appointment ::
  "generator \<Rightarrow> (int \<rightharpoonup> int \<times> rat) \<Rightarrow> int list \<Rightarrow> int list \<Rightarrow> int list \<Rightarrow> int
     \<Rightarrow> (appointment \<times> cancellation option) gen" where
  "generate_appointment self info patient_ids therapist_ids treatment_ids appointment_id =
     gen_bind (random_choice patient_ids) (\<lambda>patient_id.
     gen_bind (random_choice therapist_ids) (\<lambda>therapist_id.
     gen_bind (random_choice treatment_ids) (\<lambda>treatment_id.
     gen_bind (appointment_slot self) (\<lambda>appointment_datetime.
     gen_bind (random_randint 1 14) (\<lambda>lead.
     gen_bind (dict_get info treatment_id) (\<lambda>(duration, base_price).
     gen_bind (appointment_price base_price) (\<lambda>(insurance_covered, copay_amount, final_price).
     gen_bind (appointment_status appointment_datetime) (\<lambda>status.
     gen_bind (weighted_choice
                [(''Phone'', 60 / 100), (''Online'', 25 / 100), (''Walk-in'', 10 / 100),
                 (''Referral'', 5 / 100)]) (\<lambda>booking_method.
     gen_bind random_random (\<lambda>r.
     gen_bind (if r < 2 / 10 then gen_bind fake (\<lambda>t. gen_return (Some t))
               else gen_return None) (\<lambda>notes.
     gen_bind (random_choice [True, False]) (\<lambda>reminder_sent.
     gen_bind
       (let appointment =
          \<lparr>apt_appointment_id = appointment_id, apt_patient_id = patient_id,
           apt_therapist_id = therapist_id, apt_treatment_id = treatment_id,
           apt_appointment_date = datetime_date appointment_datetime,
           apt_appointment_time = datetime_time appointment_datetime,
           apt_duration_minutes = duration, apt_status = status,
           apt_booking_date = appointment_datetime - timedelta_days lead,
           apt_booking_method = booking_method, apt_price = final_price,
           apt_insurance_covered = insurance_covered, apt_copay_amount = copay_amount,
           apt_notes = notes, apt_reminder_sent = reminder_sent,
           apt_check_in_time = None, apt_treatment_start_time = None,
           apt_treatment_end_time = None\<rparr> in
        if status = ''Completed''
        then treatment_timestamps appointment appointment_datetime duration
        else gen_return appointment) (\<lambda>appointment.
     gen_bind (if status = ''Cancelled''
               then gen_bind (generate_cancellation appointment_id appointment_datetime)
                      (\<lambda>cancellation. gen_return (Some cancellation))
               else gen_return None) (\<lambda>cancellation.
     gen_return (appointment, cancellation)))))))))))))))"

definition generate_appointments ::
  "generator \<Rightarrow> (int \<times> int \<times> rat) list \<Rightarrow> int list \<Rightarrow> int list \<Rightarrow> int list \<Rightarrow> int
     \<Rightarrow> (appointment list \<times> cancellation list) gen" where
  "generate_appointments self rows patient_ids therapist_ids treatment_ids num_appointments =
     gen_bind (for_each [1..num_appointments]
                (generate_appointment self (treatment_info rows) patient_ids therapist_ids
                   treatment_ids)) (\<lambda>results.
     gen_return (map fst results, List.map_filter snd results))"

text \<open>The date and time of an appointment, from the two fields that store it.\<close>

definition apt_datetime :: "appointment \<Rightarrow> int" where
  "apt_datetime a = datetime_combine (apt_appointment_date a) (apt_appointment_time a)"

text \<open>
  What one iteration contributes to the two lists: an appointment with the loop's
  identifier, and a cancellation record with the same identifier exactly when the status
  is \<^verbatim>\<open>'Cancelled'\<close>.
\<close>

definition linked :: "int \<Rightarrow> appointment \<times> cancellation option \<Rightarrow> bool" where
  "linked x r \<longleftrightarrow> apt_appointment_id (fst r) = x \<and>
     (apt_status (fst r) = ''Cancelled'' \<longleftrightarrow> snd r \<noteq> None) \<and>
     (\<forall>c. snd r = Some c \<longrightarrow> cancel_appointment_id c = x)"

section \<open>Reception tasks\<close>

record reception_task =
  task_task_type :: string
  task_patient_id :: "int option"
  task_appointment_id :: "int option"
  task_priority :: int
  task_status :: string
  task_assigned_to :: string
  task_estimated_duration_minutes :: int
  task_actual_duration_minutes :: "int option"
  task_due_date :: int
  task_completed_date :: "int option"
  task_notes :: "string option"
  task_created_at :: int

text \<open>\<^verbatim>\<open>d.get(k, default)\<close>.\<close>

definition dict_get_default :: "('k \<rightharpoonup> 'v) \<Rightarrow> 'k \<Rightarrow> 'v \<Rightarrow> 'v" where
  "dict_get_default d k dflt = (case d k of None \<Rightarrow> dflt | Some v \<Rightarrow> v)"

definition task_types :: "string list" where
  "task_types =
     [''Appointment Confirmation'', ''Insurance Verification'', ''Payment Processing'',
      ''Patient Check-in'', ''Reminder Call'', ''Follow-up'']"

definition priority_map :: "string \<rightharpoonup> int" where
  "priority_map =
     map_of [(''Patient Check-in'', 1), (''Appointment Confirmation'', 2),
             (''Insurance Verification'', 3), (''Payment Processing'', 2),
             (''Reminder Call'', 3), (''Follow-up'', 4)]"

definition duration_map :: "string \<rightharpoonup> int" where
  "duration_map =
     map_of [(''Appointment Confirmation'', 3), (''Insurance Verification'', 8),
             (''Payment Processing'', 5), (''Patient Check-in'', 2), (''Reminder Call'', 4),
             (''Follow-up'', 6)]"

text \<open>
  One iteration of the loop of \<^verbatim>\<open>generate_reception_tasks\<close>, in two steps and the
  record: what the task refers to, and its status with the completion fields.
\<close>

definition task_target :: "string \<Rightarrow> int list \<Rightarrow> int list \<Rightarrow> (int option \<times> int option) gen" where
  "task_target task_type appointment_ids patient_ids =
     (if task_type \<in> set [''Appointment Confirmation'', ''Patient Check-in'']
      then gen_bind (random_choice appointment_ids) (\<lambda>appointment_id.
             gen_return (Some appointment_id, None))
      else gen_bind random_random (\<lambda>r.
           gen_bind (if r < 7 / 10
                     then gen_bind (random_choice appointment_ids) (\<lambda>a. gen_return (Some a))
                     else gen_return None) (\<lambda>appointment_id.
           gen_bind (random_choice patient_ids) (\<lambda>patient_id.
           gen_return (appointment_id, Some patient_id)))))"

definition task_state :: "int \<Rightarrow> int \<Rightarrow> (string \<times> int option \<times> int option) gen" where
  "task_state created_date estimated_duration =
     gen_bind datetime_now (\<lambda>now.
     if created_date < now - timedelta_days 1
     then gen_bind (random_choice [''Completed'', ''Cancelled'']) (\<lambda>status.
            if status = ''Completed''
            then gen_bind (random_randint 1 48) (\<lambda>hours.
                 gen_bind (random_randint (- 2) 3) (\<lambda>jitter.
                 gen_return (status, Some (created_date + timedelta_hours hours),
                             Some (estimated_duration + jitter))))
            else gen_return (status, None, None))
     else gen_bind (random_choice [''Pending'', ''In Progress'']) (\<lambda>status.
            gen_return (status, None, None)))"

definition generate_reception_task :: "int list \<Rightarrow> int list \<Rightarrow> reception_task gen" where
  "generate_reception_task appointment_ids patient_ids =
     gen_bind (random_choice task_types) (\<lambda>task_type.
     gen_bind (task_target task_type appointment_ids patient_ids)
       (\<lambda>(appointment_id, patient_id).
     gen_bind datetime_now (\<lambda>now.
     gen_bind (random_randint 1 30) (\<lambda>days.
     let created_date = now - timedelta_days days;
         priority = dict_get_default priority_map task_type 3;
         estimated_duration = dict_get_default duration_map task_type 5 in
     gen_bind (task_state created_date estimated_duration)
       (\<lambda>(status, completed_date, actual_duration).
     gen_bind (random_choice [''Sarah'', ''Mike'', ''Jennifer'', ''Auto-System''])
       (\<lambda>assigned_to.
     gen_bind random_random (\<lambda>r.
     gen_bind (if r < 3 / 10 then gen_bind fake (\<lambda>t. gen_return (Some t))
               else gen_return None) (\<lambda>notes.
     gen_return
       \<lparr>task_task_type = task_type, task_patient_id = patient_id,
        task_appointment_id = appointment_id, task_priority = priority,
        task_status = status, task_assigned_to = assigned_to,
        task_estimated_duration_minutes = estimated_duration,
        task_actual_duration_minutes = actual_duration,
        task_due_date = created_date + timedelta_hours 24,
        task_completed_date = completed_date, task_notes = notes,
        task_created_at = created_date\<rparr>))))))))"

definition generate_reception_tasks :: "int list \<Rightarrow> int list \<Rightarrow> reception_task list gen" where
  "generate_reception_tasks appointment_ids patient_ids =
     for_each [0..199] (\<lambda>_. generate_reception_task appointment_ids patient_ids)"

text \<open>\<open>returns m\<close>: the computation \<open>m\<close> never raises.\<close>

definition returns :: "'a gen \<Rightarrow> bool" where
  "returns m \<longleftrightarrow> (\<forall>w. \<exists>x w'. m w = Inr (x, w'))"

section \<open>Therapists\<close>

record therapist =
  th_first_name :: string
  th_last_name :: string
  th_email :: string
  th_phone :: string
  th_specialization :: string
  th_license_number :: string
  th_hire_date :: int
  th_hourly_rate :: rat
  th_max_patients_per_day :: int
  th_working_days :: string
  th_start_time :: string
  th_end_time :: string
  th_is_active :: int

definition specializations :: "string list" where
  "specializations =
     [''Orthopedic Physical Therapy'', ''Sports Physical Therapy'',
      ''Neurological Physical Therapy'', ''Geriatric Physical Therapy'', ''Manual Therapy'',
      ''Pediatric Physical Therapy'']"

text \<open>One iteration of the loop of \<^verbatim>\<open>generate_therapists\<close>, for the index \<open>i\<close>.\<close>

definition generate_therapist :: "int \<Rightarrow> therapist gen" where
  "generate_therapist i =
     (let (working_days, start_time, end_time, max_patients) =
            (if i < 4 then (''Mon,Tue,Wed,Thu,Fri'', ''08:00'', ''17:00'', 12)
             else if i = 4 then (''Mon,Wed,Fri'', ''08:00'', ''13:00'', 6)
             else (''Tue,Thu,Fri'', ''13:00'', ''18:00'', 6)) in
      gen_bind (random_randint 365 1800) (\<lambda>hire_days_ago.
      gen_bind datetime_now (\<lambda>now.
      gen_bind fake (\<lambda>first_name.
      gen_bind fake (\<lambda>last_name.
      gen_bind fake (\<lambda>email.
      gen_bind fake (\<lambda>phone.
      gen_bind (random_randint 10000 99999) (\<lambda>license.
      gen_bind (random_uniform 35 55) (\<lambda>rate.
      gen_return
        \<lparr>th_first_name = first_name, th_last_name = last_name, th_email = email,
         th_phone = phone,
         th_specialization = specializations ! nat (i mod int (length specializations)),
         th_license_number = ''PT'' @ string_of_nat (nat license),
         th_hire_date = datetime_date now - hire_days_ago, th_hourly_rate = round2 rate,
         th_max_patients_per_day = max_patients, th_working_days = working_days,
         th_start_time = start_time, th_end_time = end_time, th_is_active = 1\<rparr>)))))))))"

definition generate_therapists :: "int \<Rightarrow> therapist list gen" where
  "generate_therapists num_therapists = for_each [0..num_therapists - 1] generate_therapist"

section \<open>The store\<close>

text \<open>
  The SQLite database (\<^verbatim>\<open>src/database.py\<close>) as the generator uses it: six tables of rows
  keyed by their \<^verbatim>\<open>AUTOINCREMENT\<close> identifier, and a connection that sees its own
  uncommitted changes (\<open>working\<close>) on top of what is committed. For an appointment the key
  is the column \<^verbatim>\<open>appointment_id\<close>; the dictionary's own \<^verbatim>\<open>'appointment_id'\<close> is not among
  the inserted columns.
\<close>

record treatment =
  tr_treatment_name :: string
  tr_treatment_code :: string
  tr_duration_minutes :: int
  tr_base_price :: rat
  tr_description :: string
  tr_requires_equipment :: int
  tr_category :: string

record tables =
  patients_tbl :: "(int \<times> patient) list"
  therapists_tbl :: "(int \<times> therapist) list"
  treatments_tbl :: "(int \<times> treatment) list"
  appointments_tbl :: "(int \<times> appointment) list"
  cancellations_tbl :: "(int \<times> cancellation) list"
  reception_tasks_tbl :: "(int \<times> reception_task) list"

record connection =
  committed :: tables
  working :: tables

definition empty_tables :: tables where
  "empty_tables =
     \<lparr>patients_tbl = [], therapists_tbl = [], treatments_tbl = [], appointments_tbl = [],
      cancellations_tbl = [], reception_tasks_tbl = []\<rparr>"

definition next_id :: "(int \<times> 'a) list \<Rightarrow> int" where
  "next_id tbl = fold max (map fst tbl) 0 + 1"

definition sample_treatments :: "treatment list" where
  "sample_treatments =
     map (\<lambda>(name, code, duration, price, description, equipment, category).
            \<lparr>tr_treatment_name = name, tr_treatment_code = code,
             tr_duration_minutes = duration, tr_base_price = price,
             tr_description = description, tr_requires_equipment = equipment,
             tr_category = category\<rparr>)
       [(''Initial Assessment'', ''ASSESS-001'', 60, 85,
           ''Comprehensive initial evaluation and treatment planning'', 0, ''Assessment''),
        (''Manual Therapy'', ''MT-001'', 45, 75,
           ''Hands-on techniques including mobilization and manipulation'', 0,
           ''Manual Therapy''),
        (''Exercise Therapy'', ''ET-001'', 45, 65,
           ''Supervised therapeutic exercises and movement training'', 1,
           ''Exercise Therapy''),
        (''Sports Massage'', ''SM-001'', 30, 55,
           ''Deep tissue massage for athletes and active individuals'', 0,
           ''Manual Therapy''),
        (''Electrotherapy'', ''ELECTRO-001'', 30, 45,
           ''TENS, ultrasound, and electrical stimulation'', 1, ''Electrotherapy''),
        (''Dry Needling'', ''DN-001'', 30, 70,
           ''Trigger point dry needling for muscle pain relief'', 1, ''Manual Therapy''),
        (''Postural Correction'', ''PC-001'', 45, 65,
           ''Assessment and correction of postural imbalances'', 0, ''Exercise Therapy''),
        (''Balance Training'', ''BT-001'', 30, 50,
           ''Proprioceptive and balance enhancement exercises'', 1, ''Exercise Therapy''),
        (''Hydrotherapy'', ''HYDRO-001'', 45, 80,
           ''Water-based rehabilitation and exercise'', 1, ''Hydrotherapy''),
        (''Follow-up Session'', ''FU-001'', 30, 60,
           ''Progress review and treatment adjustment'', 0, ''Assessment'')]"

text \<open>
  \<^verbatim>\<open>INSERT OR IGNORE\<close>: a treatment whose unique code is already in the table is
  skipped.
\<close>

definition insert_or_ignore_treatment :: "treatment \<Rightarrow> tables \<Rightarrow> tables" where
  "insert_or_ignore_treatment tr t =
     (if tr_treatment_code tr \<in> set (map (tr_treatment_code \<circ> snd) (treatments_tbl t)) then t
      else t\<lparr>treatments_tbl := treatments_tbl t @ [(next_id (treatments_tbl t), tr)]\<rparr>)"

definition insert_sample_treatments :: "tables \<Rightarrow> tables" where
  "insert_sample_treatments t = fold insert_or_ignore_treatment sample_treatments t"

text \<open>\<^verbatim>\<open>SELECT treatment_id, duration_minutes, base_price FROM treatments\<close>.\<close>

definition select_treatment_info :: "tables \<Rightarrow> (int \<times> int \<times> rat) list" where
  "select_treatment_info t =
     map (\<lambda>(i, tr). (i, tr_duration_minutes tr, tr_base_price tr)) (treatments_tbl t)"

datatype statement =
  InsertPatient patient
| InsertTherapist therapist
| InsertAppointment appointment
| InsertCancellation cancellation
| InsertTask reception_task

fun insert_row :: "tables \<Rightarrow> statement \<Rightarrow> tables" where
  "insert_row t (InsertPatient p) =
     t\<lparr>patients_tbl := patients_tbl t @ [(next_id (patients_tbl t), p)]\<rparr>"
| "insert_row t (InsertTherapist th) =
     t\<lparr>therapists_tbl := therapists_tbl t @ [(next_id (therapists_tbl t), th)]\<rparr>"
| "insert_row t (InsertAppointment a) =
     t\<lparr>appointments_tbl := appointments_tbl t @ [(next_id (appointments_tbl t), a)]\<rparr>"
| "insert_row t (InsertCancellation c) =
     t\<lparr>cancellations_tbl := cancellations_tbl t @ [(next_id (cancellations_tbl t), c)]\<rparr>"
| "insert_row t (InsertTask k) =
     t\<lparr>reception_tasks_tbl := reception_tasks_tbl t @ [(next_id (reception_tasks_tbl t), k)]\<rparr>"

text \<open>
  \<^verbatim>\<open>cursor.execute\<close> of one \<^verbatim>\<open>INSERT\<close>. Whether the store takes the statement (its
  constraints, the binding of the parameters, the disk) is the parameter \<open>accepts\<close>; a
  statement that is refused raises and changes nothing.
\<close>

definition execute :: "(tables \<Rightarrow> statement \<Rightarrow> bool) \<Rightarrow> tables \<Rightarrow> statement \<Rightarrow> error + tables" where
  "execute accepts t stmt = (if accepts t stmt then Inr (insert_row t stmt) else Inl DatabaseError)"

fun execute_each ::
  "(tables \<Rightarrow> statement \<Rightarrow> bool) \<Rightarrow> statement list \<Rightarrow> tables \<Rightarrow> error + tables" where
  "execute_each accepts [] t = Inr t"
| "execute_each accepts (stmt # stmts) t =
     (case execute accepts t stmt of
        Inl e \<Rightarrow> Inl e
      | Inr t' \<Rightarrow> execute_each accepts stmts t')"

text \<open>The body of the \<^verbatim>\<open>try\<close> block of \<^verbatim>\<open>insert_data_to_database\<close>: five loops.\<close>

definition insert_all ::
  "(tables \<Rightarrow> statement \<Rightarrow> bool) \<Rightarrow> tables \<Rightarrow> patient list \<Rightarrow> therapist list \<Rightarrow>
     appointment list \<Rightarrow> cancellation list \<Rightarrow> reception_task list \<Rightarrow> error + tables" where
  "insert_all accepts t patients therapists appointments cancellations reception_tasks =
     (case execute_each accepts (map InsertPatient patients) t of Inl e \<Rightarrow> Inl e | Inr t1 \<Rightarrow>
      case execute_each accepts (map InsertTherapist therapists) t1 of Inl e \<Rightarrow> Inl e | Inr t2 \<Rightarrow>
      case execute_each accepts (map InsertAppointment appointments) t2 of Inl e \<Rightarrow> Inl e | Inr t3 \<Rightarrow>
      case execute_each accepts (map InsertCancellation cancellations) t3 of Inl e \<Rightarrow> Inl e | Inr t4 \<Rightarrow>
      execute_each accepts (map InsertTask reception_tasks) t4)"

text \<open>
  \<^verbatim>\<open>insert_data_to_database\<close>: commit when the five loops went through; on any exception
  roll back and raise it again.
\<close>

definition insert_data_to_database ::
  "(tables \<Rightarrow> statement \<Rightarrow> bool) \<Rightarrow> connection \<Rightarrow> patient list \<Rightarrow> therapist list \<Rightarrow>
     appointment list \<Rightarrow> cancellation list \<Rightarrow> reception_task list
     \<Rightarrow> (error + unit) \<times> connection" where
  "insert_data_to_database accepts conn patients therapists appointments cancellations
       reception_tasks =
     (case insert_all accepts (working conn) patients therapists appointments cancellations
             reception_tasks of
        Inr t \<Rightarrow> (Inr (), \<lparr>committed = t, working = t\<rparr>)
      | Inl e \<Rightarrow> (Inl e, \<lparr>committed = committed conn, working = committed conn\<rparr>))"

text \<open>
  \<^verbatim>\<open>_print_summary_statistics\<close>, as far as it can raise: the cancellation rate divides
  by the number of appointments, and the average price of the completed appointments,
  \<^verbatim>\<open>None\<close> when there is none, is formatted as a float.
\<close>

definition print_summary_statistics :: "tables \<Rightarrow> error + unit" where
  "print_summary_statistics t =
     (if appointments_tbl t = [] then Inl ZeroDivisionError
      else if filter (\<lambda>(i, a). apt_status a = ''Completed'') (appointments_tbl t) = []
      then Inl TypeError
      else Inr ())"

text \<open>
  \<^verbatim>\<open>generate_all_data\<close>. The connection is an object the method changes: the result
  is the value or the exception of the call together with the connection after it.
\<close>

definition generate_all_data ::
  "(tables \<Rightarrow> statement \<Rightarrow> bool) \<Rightarrow> generator \<Rightarrow> connection \<Rightarrow> world
     \<Rightarrow> (error + unit) \<times> connection" where
  "generate_all_data accepts self conn w =
     (case generate_patients 500 w of Inl e \<Rightarrow> (Inl e, conn) | Inr (patients, w1) \<Rightarrow>
      case generate_therapists 6 w1 of Inl e \<Rightarrow> (Inl e, conn) | Inr (therapists, w2) \<Rightarrow>
      case insert_data_to_database accepts conn patients therapists [] [] [] of
        (Inl e, conn1) \<Rightarrow> (Inl e, conn1)
      | (Inr _, conn1) \<Rightarrow>
      let patient_ids = map fst (patients_tbl (working conn1));
          therapist_ids = map fst (therapists_tbl (working conn1));
          treatment_ids = map fst (treatments_tbl (working conn1)) in
      case generate_appointments self (select_treatment_info (working conn1)) patient_ids
             therapist_ids treatment_ids 3000 w2 of
        Inl e \<Rightarrow> (Inl e, conn1)
      | Inr ((appointments, cancellations), w3) \<Rightarrow>
      let appointment_ids = map fst (appointments_tbl (working conn1)) in
      case generate_reception_tasks appointment_ids patient_ids w3 of
        Inl e \<Rightarrow> (Inl e, conn1)
      | Inr (reception_tasks, w4) \<Rightarrow>
      case insert_data_to_database accepts conn1 [] [] appointments cancellations
             reception_tasks of
        (Inl e, conn2) \<Rightarrow> (Inl e, conn2)
      | (Inr _, conn2) \<Rightarrow> (print_summary_statistics (working conn2), conn2))"

section \<open>The calendar\<close>

text \<open>
  The year, month and day of a date, as Python's \<^verbatim>\<open>date\<close> derives them from the day
  number (the proleptic Gregorian calendar: cycles of 400, 100 and 4 years), and the age
  in whole calendar years on a given day of someone born on a given day.
\<close>

definition DAYS_IN_MONTH :: "int list" where
  "DAYS_IN_MONTH = [- 1, 31, 28, 31, 30, 31, 30, 31, 31, 30, 31, 30, 31]"

definition DAYS_BEFORE_MONTH :: "int list" where
  "DAYS_BEFORE_MONTH = [- 1, 0, 31, 59, 90, 120, 151, 181, 212, 243, 273, 304, 334]"

definition date_ymd :: "int \<Rightarrow> int \<times> int \<times> int" where
  "date_ymd d =
     (let n400 = d div 146097; r400 = d mod 146097;
          n100 = r400 div 36524; r100 = r400 mod 36524;
          n4 = r100 div 1461; r4 = r100 mod 1461;
          n1 = r4 div 365; n = r4 mod 365;
          year = n400 * 400 + 1 + n100 * 100 + n4 * 4 + n1 in
      if n1 = 4 \<or> n100 = 4 then (year - 1, 12, 31)
      else
        let leapyear = (n1 = 3 \<and> (n4 \<noteq> 24 \<or> n100 = 3));
            month = (n + 50) div 32;
            preceding = DAYS_BEFORE_MONTH ! nat month + (if 2 < month \<and> leapyear then 1 else 0)
        in if n < preceding
           then (year, month - 1,
                 n - (preceding - (DAYS_IN_MONTH ! nat (month - 1)
                                     + (if month - 1 = 2 \<and> leapyear then 1 else 0))) + 1)
           else (year, month, n - preceding + 1))"

definition calendar_age :: "int \<Rightarrow> int \<Rightarrow> int" where
  "calendar_age born today =
     (case (date_ymd born, date_ymd today) of
        ((y0, m0, d0), (y1, m1, d1)) \<Rightarrow>
          y1 - y0 - (if m1 < m0 \<or> (m1 = m0 \<and> d1 < d0) then 1 else 0))"

section \<open>Concrete worlds\<close>

text \<open>
  A world for running the generator on concrete inputs: the given random draws (then
  zeros), a clock that starts at \<open>t\<close> and moves on by one microsecond per reading,
  and Faker strings that differ from call to call.
\<close>

definition draws :: "nat list \<Rightarrow> nat \<Rightarrow> nat" where
  "draws xs i = (if i < length xs then xs ! i else 0)"

definition ticking :: "int \<Rightarrow> nat \<Rightarrow> int" where
  "ticking t i = t + int i"

definition faking :: "nat \<Rightarrow> nat \<Rightarrow> string" where
  "faking n i = ''fake'' @ string_of_nat (n + i)"

definition world_of :: "nat list \<Rightarrow> int \<Rightarrow> nat \<Rightarrow> world" where
  "world_of rs t n = \<lparr>rand_src = draws rs, fake_src = faking n, clock_src = ticking t\<rparr>"

text \<open>
  A generator object as \<^verbatim>\<open>__init__\<close> sets it up on 2025-09-09 at 10:00, the rows of the
  ten treatments of \<^verbatim>\<open>insert_sample_treatments\<close> in a fresh table, and a run of
  \<^verbatim>\<open>generate_appointments\<close> for three appointments: the first cancelled 30 hours
  ahead, the second completed, the third later on the day of generation.
\<close>

definition example_generator :: generator where
  "example_generator =
     \<lparr>CLINIC_START_DATE = 63893008800000000 - timedelta_days 180,
      CLINIC_END_DATE = 63893008800000000 + timedelta_days 30\<rparr>"

definition sample_rows :: "(int \<times> int \<times> rat) list" where
  "sample_rows =
     [(1, 60, 85), (2, 45, 75), (3, 45, 65), (4, 30, 55), (5, 30, 45), (6, 30, 70),
      (7, 45, 65), (8, 30, 50), (9, 45, 80), (10, 30, 60)]"

definition example_draws :: "nat list" where
  "example_draws =
     [0, 1, 1, 120, 0, 1, 2, 6, 0, 4503599627370496, 7205759403792794, 0, 0, 1,
      7205759403792794, 29, 0, 1, 0, 0, 1,
      1, 0, 0, 99, 7205759403792794, 1, 0, 0, 1, 0, 7205759403792794, 7205759403792794,
      0, 5, 3, 0,
      2, 1, 9, 178, 0, 0, 4, 0, 13, 1, 0, 0, 0]"

definition example_apt1 :: appointment where
  "example_apt1 =
     \<lparr>apt_appointment_id = 1, apt_patient_id = 1, apt_therapist_id = 2, apt_treatment_id = 2,
      apt_appointment_date = 739442, apt_appointment_time = 37800000000,
      apt_duration_minutes = 45, apt_status = ''Cancelled'',
      apt_booking_date = 63887221800000000, apt_booking_method = ''Phone'', apt_price = 15,
      apt_insurance_covered = True, apt_copay_amount = 15, apt_notes = Some ''fake0'',
      apt_reminder_sent = False, apt_check_in_time = None, apt_treatment_start_time = None,
      apt_treatment_end_time = None\<rparr>"

definition example_apt2 :: appointment where
  "example_apt2 =
     \<lparr>apt_appointment_id = 2, apt_patient_id = 2, apt_therapist_id = 1, apt_treatment_id = 1,
      apt_appointment_date = 739421, apt_appointment_time = 43200000000,
      apt_duration_minutes = 60, apt_status = ''Completed'',
      apt_booking_date = 63885931200000000, apt_booking_method = ''Online'', apt_price = 85,
      apt_insurance_covered = False, apt_copay_amount = 0, apt_notes = None,
      apt_reminder_sent = True, apt_check_in_time = Some 63886017000000000,
      apt_treatment_start_time = Some 63886017780000000,
      apt_treatment_end_time = Some 63886021080000000\<rparr>"

definition example_apt3 :: appointment where
  "example_apt3 =
     \<lparr>apt_appointment_id = 3, apt_patient_id = 3, apt_therapist_id = 2, apt_treatment_id = 10,
      apt_appointment_date = 739502, apt_appointment_time = 54000000000,
      apt_duration_minutes = 30, apt_status = ''Scheduled'',
      apt_booking_date = 63891817200000000, apt_booking_method = ''Phone'', apt_price = 60,
      apt_insurance_covered = False, apt_copay_amount = 0, apt_notes = Some ''fake1'',
      apt_reminder_sent = True, apt_check_in_time = None, apt_treatment_start_time = None,
      apt_treatment_end_time = None\<rparr>"

definition example_cancel1 :: cancellation where
  "example_cancel1 =
     \<lparr>cancel_appointment_id = 1, cancel_cancelled_by = ''Patient'',
      cancel_cancellation_date = 63887718600000000, cancel_hours_before_appointment = 30,
      cancel_reason_category = ''Personal'', cancel_reason_detail = ''Personal commitment'',
      cancel_refund_issued = True, cancel_refund_amount = 25, cancel_rescheduled = False\<rparr>"

section \<open>Basic facts about generators\<close>

lemma gen_bind_Inr:
  assumes "gen_bind m f w = Inr (y, w')"
  obtains x w1 where "m w = Inr (x, w1)" and "f x w1 = Inr (y, w')"
  using assms by (auto simp: gen_bind_def split: sum.splits)

lemma gen_return_Inr [simp]: "gen_return x w = Inr (y, w') \<longleftrightarrow> y = x \<and> w' = w"
  by (auto simp: gen_return_def)

lemma gen_raise_Inr [simp]: "gen_raise e w \<noteq> Inr r"
  by (simp add: gen_raise_def)

lemma rand_raw_Inr: "rand_raw w = Inr (r, w') \<Longrightarrow> clock_src w' = clock_src w"
  by (auto simp: rand_raw_def)

lemma ticks_return [intro!, simp]: "ticks 0 (gen_return x)"
  by (simp add: ticks_def advance_def)

lemma ticks_raise [intro!, simp]: "ticks k (gen_raise e)"
  by (simp add: ticks_def)

lemma ticks_bind:
  assumes "ticks j m" and "\<And>x. ticks k (f x)"
  shows "ticks (j + k) (gen_bind m f)"
  unfolding ticks_def
proof (intro allI impI)
  fix w y w'
  assume "gen_bind m f w = Inr (y, w')"
  then obtain x w1 where m: "m w = Inr (x, w1)" and f: "f x w1 = Inr (y, w')"
    by (rule gen_bind_Inr)
  from assms(1) m have "clock_src w1 = advance j (clock_src w)"
    by (simp add: ticks_def)
  moreover from assms(2) f have "clock_src w' = advance k (clock_src w1)"
    by (simp add: ticks_def)
  ultimately show "clock_src w' = advance (j + k) (clock_src w)"
    by (simp add: advance_def add.assoc add.commute [of j k])
qed

lemma ticks_bind0:
  assumes "ticks 0 m" and "\<And>x. ticks k (f x)"
  shows "ticks k (gen_bind m f)"
  using ticks_bind [OF assms] by simp

lemma ticks_if:
  assumes "c \<Longrightarrow> ticks k m" and "\<not> c \<Longrightarrow> ticks k n"
  shows "ticks k (if c then m else n)"
  using assms by simp

lemma ticks_rand_raw [intro!, simp]: "ticks 0 rand_raw"
  by (auto simp: ticks_def rand_raw_def advance_def)

lemma ticks_fake [intro!, simp]: "ticks 0 fake"
  by (auto simp: ticks_def fake_def advance_def)

lemma ticks_datetime_now [simp]: "ticks 1 datetime_now"
  by (auto simp: ticks_def datetime_now_def)

lemma ticks_random_random [intro!, simp]: "ticks 0 random_random"
  unfolding random_random_def by (intro ticks_bind0) simp_all

lemma ticks_random_randint [intro!, simp]: "ticks 0 (random_randint a b)"
  unfolding random_randint_def by (intro ticks_if ticks_bind0) simp_all

lemma ticks_random_choice [intro!, simp]: "ticks 0 (random_choice seq)"
  unfolding random_choice_def by (intro ticks_if ticks_bind0) simp_all

lemma ticks_random_uniform [intro!, simp]: "ticks 0 (random_uniform a b)"
  unfolding random_uniform_def by (intro ticks_bind0) simp_all

lemma ticks_random_choices [intro!, simp]: "ticks 0 (random_choices population weights)"
  unfolding random_choices_def Let_def by (intro ticks_if ticks_bind0) simp_all

lemma ticks_weighted_choice [intro!, simp]: "ticks 0 (weighted_choice choices)"
  unfolding weighted_choice_def by (intro ticks_if) simp_all

lemma ticksD: "ticks k m \<Longrightarrow> m w = Inr (x, w') \<Longrightarrow> clock_src w' = advance k (clock_src w)"
  by (simp add: ticks_def)

lemma datetime_now_Inr:
  "datetime_now w = Inr (t, w') \<Longrightarrow> t = clock_src w 0"
  by (auto simp: datetime_now_def)

lemma random_randint_range:
  assumes "random_randint a b w = Inr (x, w')"
  shows "a \<le> x \<and> x \<le> b"
proof -
  from assms have ab: "a \<le> b"
    by (auto simp: random_randint_def split: if_splits)
  with assms obtain r where x: "x = a + int (r mod nat (b - a + 1))"
    by (auto simp: random_randint_def elim!: gen_bind_Inr)
  from ab have "r mod nat (b - a + 1) < nat (b - a + 1)"
    by simp
  with ab x show ?thesis by linarith
qed

lemma random_choice_in:
  assumes "random_choice seq w = Inr (x, w')"
  shows "x \<in> set seq"
  using assms by (auto simp: random_choice_def split: if_splits elim!: gen_bind_Inr)

lemma bisect_right_bounds:
  "lo \<le> hi \<Longrightarrow> lo \<le> bisect_right a x lo hi \<and> bisect_right a x lo hi \<le> hi"
proof (induction a x lo hi rule: bisect_right.induct)
  case (1 a x lo hi)
  show ?case
  proof (cases "lo < hi")
    case False
    with "1.prems" show ?thesis by (simp add: bisect_right.simps)
  next
    case True
    show ?thesis
    proof (cases "x < a ! ((lo + hi) div 2)")
      case True
      with \<open>lo < hi\<close> "1.IH"(1) show ?thesis
        by (subst (1 2) bisect_right.simps) force
    next
      case False
      with \<open>lo < hi\<close> "1.IH"(2) show ?thesis
        by (subst (1 2) bisect_right.simps) force
    qed
  qed
qed

lemma length_accumulate [simp]: "length (accumulate t ws) = length ws"
  by (induction ws arbitrary: t) simp_all

lemma random_choices_in:
  assumes "random_choices population weights w = Inr (x, w')"
    and "length population = length weights"
  shows "x \<in> set population"
proof -
  from assms(1) have ne: "accumulate 0 weights \<noteq> []"
    by (auto simp: random_choices_def Let_def split: if_splits)
  then have "weights \<noteq> []" by auto
  with assms(2) have pos: "0 < length population" by auto
  from assms(1) obtain u where
    x: "x = population ! bisect_right (accumulate 0 weights)
                           (u * last (accumulate 0 weights)) 0 (length population - 1)"
    by (auto simp: random_choices_def Let_def split: if_splits elim!: gen_bind_Inr)
  have "bisect_right (accumulate 0 weights) (u * last (accumulate 0 weights)) 0
          (length population - 1) \<le> length population - 1"
    using bisect_right_bounds [of 0 "length population - 1"] by simp
  with pos have "bisect_right (accumulate 0 weights) (u * last (accumulate 0 weights)) 0
          (length population - 1) < length population"
    by linarith
  with x show ?thesis by (simp only: nth_mem)
qed

lemma weighted_choice_in:
  assumes "weighted_choice choices w = Inr (x, w')"
  shows "x \<in> fst ` set choices"
  using assms random_choices_in [of "map fst choices" "map snd choices" w x w']
  by (auto simp: weighted_choice_def split: if_splits)


lemma returned_Some: "returned r = Some x \<longleftrightarrow> (\<exists>w'. r = Inr (x, w'))"
  by (auto simp: returned_def split: sum.splits)

lemma advance_0 [simp]: "advance 0 f = f"
  by (simp add: advance_def)

lemma advance_advance: "advance a (advance b f) = advance (a + b) f"
  by (simp add: advance_def add.assoc)

lemma ticks_bind_now:
  assumes "\<And>x. ticks k (f x)"
  shows "ticks (Suc k) (gen_bind datetime_now f)"
  using ticks_bind [OF ticks_datetime_now assms] by simp

subsection \<open>Loops\<close>

lemma for_each_length:
  "for_each xs body w = Inr (rs, w') \<Longrightarrow> length rs = length xs"
  by (induction xs arbitrary: w rs w') (auto elim!: gen_bind_Inr)

lemma for_each_nth:
  assumes "for_each xs body w = Inr (rs, w')" and "\<And>x. ticks k (body x)"
    and "j < length xs"
  shows "\<exists>wj wj'. body (xs ! j) wj = Inr (rs ! j, wj') \<and>
           clock_src wj = advance (k * j) (clock_src w)"
  using assms(1,3)
proof (induction xs arbitrary: w rs w' j)
  case Nil
  then show ?case by simp
next
  case (Cons x xs)
  from Cons.prems(1) obtain r w1 rs' where
    b: "body x w = Inr (r, w1)" and
    l: "for_each xs body w1 = Inr (rs', w')" and
    rs: "rs = r # rs'"
    by (auto elim!: gen_bind_Inr)
  show ?case
  proof (cases j)
    case 0
    with b rs show ?thesis by auto
  next
    case (Suc j')
    with Cons.prems(2) have "j' < length xs" by simp
    from Cons.IH [OF l this] obtain wj wj' where
      "body (xs ! j') wj = Inr (rs' ! j', wj')" and
      "clock_src wj = advance (k * j') (clock_src w1)"
      by blast
    moreover from assms(2) b have "clock_src w1 = advance k (clock_src w)"
      by (rule ticksD)
    ultimately show ?thesis
      using Suc rs by (auto simp: advance_advance add.commute)
  qed
qed

lemma for_each_set:
  assumes "for_each xs body w = Inr (rs, w')" and "r \<in> set rs"
  shows "\<exists>x wj wj'. x \<in> set xs \<and> body x wj = Inr (r, wj')"
  using assms
proof (induction xs arbitrary: w rs w')
  case Nil
  then show ?case by simp
next
  case (Cons x xs)
  from Cons.prems(1) obtain r0 w1 rs' where
    b: "body x w = Inr (r0, w1)" and
    l: "for_each xs body w1 = Inr (rs', w')" and
    rs: "rs = r0 # rs'"
    by (auto elim!: gen_bind_Inr)
  show ?case
  proof (cases "r = r0")
    case True
    with b show ?thesis by auto
  next
    case False
    with Cons.prems(2) rs have "r \<in> set rs'" by simp
    from Cons.IH [OF l this] show ?thesis by auto
  qed
qed

lemma for_each_total:
  assumes "\<And>x w. x \<in> set xs \<Longrightarrow> \<exists>r w'. body x w = Inr (r, w')"
  shows "\<exists>rs w'. for_each xs body w = Inr (rs, w')"
  using assms
proof (induction xs arbitrary: w)
  case Nil
  then show ?case by (simp add: gen_return_def)
next
  case (Cons x xs)
  from Cons.prems [of x w] obtain r w1 where b: "body x w = Inr (r, w1)"
    by auto
  from Cons.IH [of w1] Cons.prems obtain rs w' where "for_each xs body w1 = Inr (rs, w')"
    by auto
  with b show ?case
    by (simp add: gen_bind_def gen_return_def)
qed

subsection \<open>Running on concrete worlds\<close>

lemma gen_bind_apply:
  "gen_bind m f w = (case m w of Inl e \<Rightarrow> Inl e | Inr (x, w') \<Rightarrow> f x w')"
  by (simp add: gen_bind_def)

lemma gen_return_apply: "gen_return x w = Inr (x, w)"
  by (simp add: gen_return_def)

lemma gen_raise_apply: "gen_raise e w = Inl e"
  by (simp add: gen_raise_def)

lemma advance_draws_Cons: "advance (Suc 0) (draws (x # xs)) = draws xs"
  by (rule ext) (simp add: advance_def draws_def)

lemma advance_draws_Nil: "advance (Suc 0) (draws []) = draws []"
  by (rule ext) (simp add: advance_def draws_def)

lemma advance_ticking: "advance (Suc 0) (ticking t) = ticking (t + 1)"
  by (rule ext) (simp add: advance_def ticking_def)

lemma advance_faking: "advance (Suc 0) (faking n) = faking (Suc n)"
  by (rule ext) (simp add: advance_def faking_def)

lemma rand_raw_world_of_Cons: "rand_raw (world_of (r # rs) t n) = Inr (r, world_of rs t n)"
  by (simp add: rand_raw_def world_of_def advance_draws_Cons draws_def)

lemma rand_raw_world_of_Nil: "rand_raw (world_of [] t n) = Inr (0, world_of [] t n)"
  by (simp add: rand_raw_def world_of_def advance_draws_Nil draws_def)

lemma fake_world_of:
  "fake (world_of rs t n) = Inr (''fake'' @ string_of_nat n, world_of rs t (Suc n))"
  by (simp add: fake_def world_of_def advance_faking faking_def)

lemma datetime_now_world_of:
  "datetime_now (world_of rs t n) = Inr (t, world_of rs (t + 1) n)"
  by (simp add: datetime_now_def world_of_def advance_ticking ticking_def)

lemma clock_src_world_of: "clock_src (world_of rs t n) i = t + int i"
  by (simp add: world_of_def ticking_def)

lemmas run_simps =
  gen_bind_apply gen_return_apply gen_raise_apply rand_raw_world_of_Cons rand_raw_world_of_Nil
  fake_world_of datetime_now_world_of random_random_def random_randint_def random_choice_def
  random_uniform_def random_triangular_int_def random_choices_def weighted_choice_def
  bisect_right.simps string_of_nat.simps returned_def Let_def

section \<open>Facts about patients\<close>

lemma ticks_generate_realistic_age [simp]: "ticks 0 generate_realistic_age"
  unfolding generate_realistic_age_def by (intro ticks_bind0) simp_all

lemma generate_realistic_age_range:
  assumes "generate_realistic_age w = Inr (age, w')"
  shows "25 \<le> age \<and> age \<le> 90"
proof -
  from assms obtain age_range w1 where
    c: "weighted_choice PATIENT_AGE_WEIGHTS w = Inr (age_range, w1)" and
    r: "random_randint (fst age_range) (snd age_range) w1 = Inr (age, w')"
    unfolding generate_realistic_age_def by (rule gen_bind_Inr)
  from weighted_choice_in [OF c] have
    "25 \<le> fst age_range \<and> snd age_range \<le> 90"
    by (auto simp: PATIENT_AGE_WEIGHTS_def)
  with random_randint_range [OF r] show ?thesis by linarith
qed

lemma ticks_generate_patient: "ticks (Suc (Suc 0)) generate_patient"
  unfolding generate_patient_def
  by (intro ticks_bind_now ticks_bind0 ticks_if) simp_all

lemma generate_patient_gender:
  assumes "generate_patient w = Inr (p, w')"
  shows "p_gender p = ''M'' \<or> p_gender p = ''F''"
proof -
  from assms obtain age w1 gender w2 where
    "generate_realistic_age w = Inr (age, w1)" and
    g: "random_choice [''M'', ''F''] w1 = Inr (gender, w2)" and
    "p_gender p = gender"
    unfolding generate_patient_def
    by (elim gen_bind_Inr) (auto split: if_splits)
  with random_choice_in [OF g] show ?thesis by auto
qed

lemma generate_patient_birth:
  assumes "generate_patient w = Inr (p, w')"
  shows "\<exists>age. 25 \<le> age \<and> age \<le> 90 \<and>
           p_date_of_birth p = datetime_date (clock_src w 0) - age * 365"
proof -
  from assms obtain age w1 gender w2 now1 w3 where
    a: "generate_realistic_age w = Inr (age, w1)" and
    g: "random_choice [''M'', ''F''] w1 = Inr (gender, w2)" and
    n: "datetime_now w2 = Inr (now1, w3)" and
    b: "p_date_of_birth p = datetime_date now1 - age * 365"
    unfolding generate_patient_def
    by (elim gen_bind_Inr) (auto split: if_splits)
  from ticksD [OF ticks_generate_realistic_age a] ticksD [OF ticks_random_choice g]
  have "clock_src w2 = clock_src w" by simp
  with datetime_now_Inr [OF n] have "now1 = clock_src w 0" by simp
  with b generate_realistic_age_range [OF a] show ?thesis by auto
qed

lemma birth_date_gap:
  "timedelta_days (age * 365) \<le> t - timedelta_days (t div 86400000000 - age * 365)"
  "t - timedelta_days (t div 86400000000 - age * 365)
     < timedelta_days (age * 365) + timedelta_days 1"
proof -
  define q where "q = t div 86400000000"
  define r where "r = t mod 86400000000"
  have t: "t = 86400000000 * q + r"
    unfolding q_def r_def by simp
  have r: "0 \<le> r" "r < 86400000000"
    unfolding r_def by simp_all
  have e: "(q - age * 365) * 86400000000 = 86400000000 * q - age * 365 * 86400000000"
    by (simp only: left_diff_distrib mult.commute)
  from t r e show "timedelta_days (age * 365)
      \<le> t - timedelta_days (t div 86400000000 - age * 365)"
    unfolding timedelta_days_def q_def [symmetric] by linarith
  from t r e show "t - timedelta_days (t div 86400000000 - age * 365)
      < timedelta_days (age * 365) + timedelta_days 1"
    unfolding timedelta_days_def q_def [symmetric] by linarith
qed

section \<open>Facts about appointments and cancellations\<close>

lemma random_choiceE:
  assumes "random_choice seq w = Inr (x, w')"
  obtains "x \<in> set seq" and "clock_src w' = clock_src w"
  using assms random_choice_in [OF assms] ticksD [OF ticks_random_choice assms] by simp

lemma random_randintE:
  assumes "random_randint a b w = Inr (x, w')"
  obtains "a \<le> x" and "x \<le> b" and "clock_src w' = clock_src w"
  using random_randint_range [OF assms] ticksD [OF ticks_random_randint assms] by simp

lemma weighted_choiceE:
  assumes "weighted_choice choices w = Inr (x, w')"
  obtains "x \<in> fst ` set choices" and "clock_src w' = clock_src w"
  using weighted_choice_in [OF assms] ticksD [OF ticks_weighted_choice assms] by simp

lemma dict_getE:
  assumes "dict_get d k w = Inr (v, w')"
  obtains "d k = Some v" and "w' = w"
  using assms by (auto simp: dict_get_def split: option.splits)

lemma ticks_dict_get [intro!, simp]: "ticks 0 (dict_get d k)"
  by (auto simp: ticks_def dict_get_def split: option.splits)

lemma ticks_random_triangular_int [intro!, simp]: "ticks 0 (random_triangular_int a b c)"
  by (simp add: random_triangular_int_def)

lemma ticks_get_business_hours_datetime [simp]: "ticks 0 (get_business_hours_datetime d)"
  unfolding get_business_hours_datetime_def Let_def by (intro ticks_bind0) simp_all

lemma ticks_appointment_slot [simp]: "ticks 0 (appointment_slot self)"
  unfolding appointment_slot_def Let_def by (intro ticks_bind0 ticks_if) simp_all

lemma ticks_appointment_price [simp]: "ticks 0 (appointment_price p)"
  unfolding appointment_price_def Let_def by (intro ticks_bind0 ticks_if) simp_all

lemma ticks_appointment_status [simp]: "ticks (Suc 0) (appointment_status dt)"
  unfolding appointment_status_def Let_def by (intro ticks_bind_now ticks_if) simp_all

lemma ticks_treatment_timestamps [simp]: "ticks 0 (treatment_timestamps a dt d)"
  unfolding treatment_timestamps_def Let_def by (intro ticks_bind0) simp_all

lemma ticks_case_prod:
  assumes "\<And>a b. ticks k (f a b)"
  shows "ticks k (case p of (a, b) \<Rightarrow> f a b)"
  using assms by (cases p) simp

lemma ticks_generate_cancellation [simp]: "ticks 0 (generate_cancellation i dt)"
  unfolding generate_cancellation_def
  by (intro ticks_bind0 ticks_if ticks_case_prod) simp_all

lemma ticks_generate_appointment:
  "ticks (Suc 0) (generate_appointment self info pids thids trids i)"
  unfolding generate_appointment_def Let_def
  apply (intro ticks_bind0 [of "random_choice _"] ticks_bind0 [of "appointment_slot _"]
      ticks_bind0 [of "random_randint _ _"] ticks_bind0 [of "dict_get _ _"]
      ticks_bind0 [of "appointment_price _"] ticks_case_prod)
                 apply simp_all
  apply (rule ticks_bind [of "Suc 0" _ 0, simplified])
   apply simp
  apply (intro ticks_bind0 ticks_if)
           apply simp_all
  done

lemma appointment_statusE:
  assumes "appointment_status dt w = Inr (s, w')"
  obtains "clock_src w 0 < dt \<longrightarrow> s = ''Scheduled''"
    and "s \<in> {''Completed'', ''Cancelled'', ''No-show'', ''Scheduled''}"
  using assms unfolding appointment_status_def Let_def
  by (elim gen_bind_Inr) (auto dest!: datetime_now_Inr weighted_choice_in split: if_splits)


lemma treatment_timestampsE:
  assumes "treatment_timestamps a0 dt d w = Inr (a, w')"
  obtains before after jitter where "5 \<le> before" "before \<le> 15" "0 \<le> after" "after \<le> 10"
    "- 5 \<le> jitter" "jitter \<le> 15"
    "a = a0\<lparr>apt_check_in_time := Some (dt - timedelta_minutes before),
             apt_treatment_start_time := Some (dt + timedelta_minutes after),
             apt_treatment_end_time :=
               Some (dt + timedelta_minutes after + timedelta_minutes (d + jitter))\<rparr>"
  using assms unfolding treatment_timestamps_def Let_def
  by (elim gen_bind_Inr random_randintE) auto

lemma generate_cancellationE:
  assumes "generate_cancellation i dt w = Inr (c, w')"
  obtains "cancel_appointment_id c = i"
    and "1 \<le> cancel_hours_before_appointment c"
    and "cancel_hours_before_appointment c \<le> 168"
    and "cancel_cancellation_date c = dt - timedelta_hours (cancel_hours_before_appointment c)"
    and "cancel_hours_before_appointment c < 24 \<longrightarrow>
           \<not> cancel_refund_issued c \<and> cancel_refund_amount c = 0"
    and "24 \<le> cancel_hours_before_appointment c \<longrightarrow>
           cancel_refund_amount c = (if cancel_refund_issued c then 25 else 0)"
proof -
  from assms obtain m w1 h w2 where
    m: "weighted_choice [(1, 15 / 100), (4, 20 / 100), (24, 30 / 100), (48, 20 / 100),
                 (168::int, 15 / 100)] w = Inr (m, w1)" and
    h: "random_randint 1 m w1 = Inr (h, w2)" and
    c: "cancel_appointment_id c = i \<and> cancel_hours_before_appointment c = h \<and>
        cancel_cancellation_date c = dt - timedelta_hours h \<and>
        (h < 24 \<longrightarrow> \<not> cancel_refund_issued c \<and> cancel_refund_amount c = 0) \<and>
        (24 \<le> h \<longrightarrow> cancel_refund_amount c = (if cancel_refund_issued c then 25 else 0))"
    unfolding generate_cancellation_def
    by (elim gen_bind_Inr) (auto split: if_splits prod.splits elim!: gen_bind_Inr)
  from weighted_choice_in [OF m] have "m \<le> 168" by auto
  with random_randint_range [OF h] c that show ?thesis by auto
qed

lemma apt_datetime_eq:
  "datetime_combine (datetime_date dt) (datetime_time dt) = dt"
  by (simp add: datetime_combine_def datetime_date_def datetime_time_def timedelta_days_def)

lemma generate_appointment_id:
  assumes "generate_appointment self info pids thids trids i w = Inr ((a, co), w')"
  shows "apt_appointment_id a = i"
  using assms unfolding generate_appointment_def Let_def
  by (elim gen_bind_Inr) (auto split: prod.splits if_splits elim!: gen_bind_Inr treatment_timestampsE)


lemma generate_appointment_status:
  assumes "generate_appointment self info pids thids trids i w = Inr ((a, co), w')"
  shows "(clock_src w 0 < apt_datetime a \<longrightarrow> apt_status a = ''Scheduled'') \<and>
         apt_status a \<in> {''Completed'', ''Cancelled'', ''No-show'', ''Scheduled''}"
  using assms unfolding generate_appointment_def Let_def
  by (elim gen_bind_Inr random_choiceE random_randintE dict_getE)
     (auto split: prod.splits if_splits simp: apt_datetime_def apt_datetime_eq
       dest!: ticksD [OF ticks_appointment_slot] ticksD [OF ticks_appointment_price]
       elim!: gen_bind_Inr treatment_timestampsE appointment_statusE)


lemma generate_appointment_duration:
  assumes "generate_appointment self info pids thids trids i w = Inr ((a, co), w')"
  shows "\<exists>base_price. info (apt_treatment_id a) = Some (apt_duration_minutes a, base_price)"
  using assms unfolding generate_appointment_def Let_def
  by (elim gen_bind_Inr dict_getE)
     (auto split: prod.splits if_splits elim!: gen_bind_Inr treatment_timestampsE)

lemma generate_appointment_timestamps:
  assumes "generate_appointment self info pids thids trids i w = Inr ((a, co), w')"
  shows "(apt_status a = ''Completed'' \<longrightarrow>
           (\<exists>before after jitter. 5 \<le> before \<and> before \<le> 15 \<and> 0 \<le> after \<and> after \<le> 10 \<and>
              - 5 \<le> jitter \<and> jitter \<le> 15 \<and>
              apt_check_in_time a = Some (apt_datetime a - timedelta_minutes before) \<and>
              apt_treatment_start_time a = Some (apt_datetime a + timedelta_minutes after) \<and>
              apt_treatment_end_time a =
                Some (apt_datetime a + timedelta_minutes after
                        + timedelta_minutes (apt_duration_minutes a + jitter)))) \<and>
         (apt_status a \<noteq> ''Completed'' \<longrightarrow>
            apt_check_in_time a = None \<and> apt_treatment_start_time a = None \<and>
            apt_treatment_end_time a = None)"
  using assms unfolding generate_appointment_def Let_def
  apply (elim gen_bind_Inr)
  apply (auto split: prod.splits if_splits simp: apt_datetime_def apt_datetime_eq
       elim!: gen_bind_Inr treatment_timestampsE)
   apply blast+
  done

lemma generate_appointment_cancel_run:
  assumes "generate_appointment self info pids thids trids i w = Inr ((a, co), w')"
  shows "(apt_status a = ''Cancelled'' \<longrightarrow>
           (\<exists>c w1 w2. co = Some c \<and>
              generate_cancellation i (apt_datetime a) w1 = Inr (c, w2))) \<and>
         (apt_status a \<noteq> ''Cancelled'' \<longrightarrow> co = None)"
  using assms unfolding generate_appointment_def Let_def
  apply (elim gen_bind_Inr)
  apply (auto split: prod.splits if_splits simp: apt_datetime_def apt_datetime_eq
       elim!: gen_bind_Inr treatment_timestampsE)
   apply blast+
  done

lemma generate_appointment_cancellation:
  assumes "generate_appointment self info pids thids trids i w = Inr ((a, co), w')"
    and "co = Some c"
  shows "apt_status a = ''Cancelled'' \<and> cancel_appointment_id c = i \<and>
         1 \<le> cancel_hours_before_appointment c \<and>
         cancel_hours_before_appointment c \<le> 168 \<and>
         cancel_cancellation_date c =
           apt_datetime a - timedelta_hours (cancel_hours_before_appointment c) \<and>
         (cancel_hours_before_appointment c < 24 \<longrightarrow>
            \<not> cancel_refund_issued c \<and> cancel_refund_amount c = 0) \<and>
         (24 \<le> cancel_hours_before_appointment c \<longrightarrow>
            cancel_refund_amount c = (if cancel_refund_issued c then 25 else 0))"
proof -
  from generate_appointment_cancel_run [OF assms(1)] assms(2)
  have st: "apt_status a = ''Cancelled''" by auto
  with generate_appointment_cancel_run [OF assms(1)] assms(2) obtain w1 w2 where
    "generate_cancellation i (apt_datetime a) w1 = Inr (c, w2)" by auto
  then show ?thesis
    using st by (elim generate_cancellationE) simp
qed

lemma generate_appointment_cancelled:
  assumes "generate_appointment self info pids thids trids i w = Inr ((a, co), w')"
  shows "apt_status a = ''Cancelled'' \<longleftrightarrow> co \<noteq> None"
  using generate_appointment_cancel_run [OF assms] by auto


lemma for_each_all2:
  assumes "for_each xs body w = Inr (rs, w')"
    and "\<And>x w r w'. body x w = Inr (r, w') \<Longrightarrow> P x r"
  shows "list_all2 P xs rs"
  using assms(1)
proof (induction xs arbitrary: w rs w')
  case Nil
  then show ?case by simp
next
  case (Cons x xs)
  from Cons.prems obtain r w1 rs' where
    b: "body x w = Inr (r, w1)" and
    l: "for_each xs body w1 = Inr (rs', w')" and
    rs: "rs = r # rs'"
    by (auto elim!: gen_bind_Inr)
  from assms(2) [OF b] Cons.IH [OF l] rs show ?case by simp
qed

lemma generate_appointments_Inr:
  assumes "returned (generate_appointments self rows pids thids trids n w) = Some (apps, cans)"
  obtains rs w' where
    "for_each [1..n] (generate_appointment self (treatment_info rows) pids thids trids) w
       = Inr (rs, w')"
    and "apps = map fst rs" and "cans = List.map_filter snd rs"
  using assms unfolding generate_appointments_def returned_Some
  by (auto elim!: gen_bind_Inr)

lemma length_filter_map_eq:
  "length (filter (\<lambda>x. f x = v) xs) = length (filter (\<lambda>y. y = v) (map f xs))"
  by (induction xs) simp_all

lemma count_in_distinct_image:
  assumes "distinct (map f xs)" and "a \<in> set xs"
  shows "length (filter (\<lambda>y. y = f a) (map f (filter P xs))) = (if P a then 1 else 0)"
  using assms
proof (induction xs)
  case Nil
  then show ?case by simp
next
  case (Cons b xs)
  have none: "filter (\<lambda>y. y = f a) (map f (filter P xs)) = []"
    and none': "filter (\<lambda>x. P x \<and> f x = f a) xs = []"
    if "f a \<notin> f ` set xs"
    using that by (auto simp: filter_empty_conv image_iff)
  show ?case
  proof (cases "a = b")
    case True
    with Cons.prems none none' show ?thesis by auto
  next
    case False
    with Cons.prems have "a \<in> set xs" "f b \<noteq> f a" by auto
    with Cons show ?thesis by auto
  qed
qed

lemma linked_ids: "list_all2 linked xs rs \<Longrightarrow> map apt_appointment_id (map fst rs) = xs"
  by (induction rule: list_all2_induct) (simp_all add: linked_def)

lemma linked_cancel_ids:
  "list_all2 linked xs rs \<Longrightarrow>
     map cancel_appointment_id (List.map_filter snd rs) =
     map apt_appointment_id (filter (\<lambda>a. apt_status a = ''Cancelled'') (map fst rs))"
  by (induction rule: list_all2_induct) (auto simp: linked_def map_filter_simps)

lemma generate_appointment_linked:
  assumes "generate_appointment self info pids thids trids i w = Inr (r, w')"
  shows "linked i r"
proof -
  obtain a co where r: "r = (a, co)" by (cases r)
  with assms have run: "generate_appointment self info pids thids trids i w = Inr ((a, co), w')"
    by simp
  from generate_appointment_id [OF run] generate_appointment_cancelled [OF run]
    generate_appointment_cancellation [OF run]
  show ?thesis unfolding linked_def r by auto
qed

lemmas apt_simps = generate_appointments_def generate_appointment_def appointment_slot_def
  appointment_price_def appointment_status_def treatment_timestamps_def
  generate_cancellation_def get_business_hours_datetime_def dict_get_def treatment_info_def
  datetime_replace_def datetime_date_def datetime_time_def weekday_def timedelta_days_def
  timedelta_hours_def timedelta_minutes_def round2_def round_half_even_def
  CANCELLATION_REASONS_def List.map_filter_simps upto.simps

lemma example_run:
  "returned (generate_appointments example_generator sample_rows [1, 2, 3] [1, 2]
      [1, 2, 3, 4, 5, 6, 7, 8, 9, 10] 3 (world_of example_draws 63893008800000000 0)) =
   Some ([example_apt1, example_apt2, example_apt3], [example_cancel1])"
  by (simp add: run_simps apt_simps example_generator_def sample_rows_def example_draws_def
      example_apt1_def example_apt2_def example_apt3_def example_cancel1_def)

lemma generate_appointments_nth:
  assumes "returned (generate_appointments self rows pids thids trids n w) = Some (apps, cans)"
    and "j < length apps"
  obtains co wj wj' where
    "generate_appointment self (treatment_info rows) pids thids trids ([1..n] ! j) wj
       = Inr ((apps ! j, co), wj')"
    and "clock_src wj 0 = clock_src w j"
proof -
  from assms(1) obtain rs w' where
    run: "for_each [1..n] (generate_appointment self (treatment_info rows) pids thids trids) w
       = Inr (rs, w')" and
    apps: "apps = map fst rs"
    by (rule generate_appointments_Inr)
  from for_each_length [OF run] assms(2) apps have j: "j < length [1..n]" "j < length rs"
    by simp_all
  from for_each_nth [OF run ticks_generate_appointment j(1)] obtain wj wj' where
    b: "generate_appointment self (treatment_info rows) pids thids trids ([1..n] ! j) wj
          = Inr (rs ! j, wj')" and
    c: "clock_src wj = advance (Suc 0 * j) (clock_src w)"
    by blast
  from apps j(2) have "rs ! j = (apps ! j, snd (rs ! j))"
    by simp
  with b have b': "generate_appointment self (treatment_info rows) pids thids trids
      ([1..n] ! j) wj = Inr ((apps ! j, snd (rs ! j)), wj')"
    by simp
  from c have c': "clock_src wj 0 = clock_src w j"
    by (simp add: advance_def)
  from that [OF b' c'] show ?thesis .
qed

lemma generate_appointments_mem:
  assumes "returned (generate_appointments self rows pids thids trids n w) = Some (apps, cans)"
    and "a \<in> set apps"
  obtains i co wj wj' where
    "generate_appointment self (treatment_info rows) pids thids trids i wj
       = Inr ((a, co), wj')"
proof -
  from assms(1) obtain rs w' where
    run: "for_each [1..n] (generate_appointment self (treatment_info rows) pids thids trids) w
       = Inr (rs, w')" and
    apps: "apps = map fst rs"
    by (rule generate_appointments_Inr)
  from assms(2) apps obtain co where "(a, co) \<in> set rs"
    by auto
  from for_each_set [OF run this] that show ?thesis
    by blast
qed

lemma generate_appointments_cancel_mem:
  assumes "returned (generate_appointments self rows pids thids trids n w) = Some (apps, cans)"
    and "c \<in> set cans"
  obtains a i wj wj' where
    "generate_appointment self (treatment_info rows) pids thids trids i wj
       = Inr ((a, Some c), wj')"
    and "a \<in> set apps"
proof -
  from assms(1) obtain rs w' where
    run: "for_each [1..n] (generate_appointment self (treatment_info rows) pids thids trids) w
       = Inr (rs, w')" and
    apps: "apps = map fst rs" and cans: "cans = List.map_filter snd rs"
    by (rule generate_appointments_Inr)
  from assms(2) cans obtain r where r: "r \<in> set rs" "snd r = Some c"
    by (auto simp: List.map_filter_def)
  then have m: "(fst r, Some c) \<in> set rs"
    by (metis prod.collapse)
  from r(1) apps have "fst r \<in> set apps" by simp
  with for_each_set [OF run m] that show ?thesis
    by blast
qed

lemma generate_appointment_fails:
  assumes "trids = [] \<or> info = Map.empty"
  shows "\<exists>e. generate_appointment self info pids thids trids i w = Inl e"
  using assms unfolding generate_appointment_def
  by (auto simp: gen_bind_apply random_choice_def dict_get_def gen_raise_def
      split: sum.splits prod.splits)

lemma generate_appointments_timestamps_bounds:
  assumes "returned (generate_appointments self rows pids thids trids n w) =
             Some (appointments, cancellations)"
    and "a \<in> set appointments"
  shows "(apt_status a = ''Completed'' \<longrightarrow>
            (\<exists>ci ts te. apt_check_in_time a = Some ci \<and> apt_treatment_start_time a = Some ts \<and>
               apt_treatment_end_time a = Some te \<and> ci < ts \<and>
               ts + timedelta_minutes (apt_duration_minutes a - 5) \<le> te \<and>
               (5 < apt_duration_minutes a \<longrightarrow> ts < te))) \<and>
         (apt_status a \<noteq> ''Completed'' \<longrightarrow>
            apt_check_in_time a = None \<and> apt_treatment_start_time a = None \<and>
            apt_treatment_end_time a = None) \<and>
         (\<exists>base_price.
            treatment_info rows (apt_treatment_id a) = Some (apt_duration_minutes a, base_price))"
proof -
  from assms obtain i co wj wj' where
    b: "generate_appointment self (treatment_info rows) pids thids trids i wj
       = Inr ((a, co), wj')"
    by (rule generate_appointments_mem)
  have "\<exists>ci ts te. apt_check_in_time a = Some ci \<and> apt_treatment_start_time a = Some ts \<and>
               apt_treatment_end_time a = Some te \<and> ci < ts \<and>
               ts + timedelta_minutes (apt_duration_minutes a - 5) \<le> te \<and>
               (5 < apt_duration_minutes a \<longrightarrow> ts < te)"
    if "apt_status a = ''Completed''"
  proof -
    from generate_appointment_timestamps [OF b] that obtain before after jitter where
      r: "5 \<le> before" "0 \<le> after" "- 5 \<le> jitter" and
      t: "apt_check_in_time a = Some (apt_datetime a - timedelta_minutes before)"
        "apt_treatment_start_time a = Some (apt_datetime a + timedelta_minutes after)"
        "apt_treatment_end_time a =
           Some (apt_datetime a + timedelta_minutes after
                   + timedelta_minutes (apt_duration_minutes a + jitter))"
      by blast
    from r have "apt_datetime a - timedelta_minutes before
        < apt_datetime a + timedelta_minutes after"
      by (simp add: timedelta_minutes_def)
    moreover from r have "apt_datetime a + timedelta_minutes after
        + timedelta_minutes (apt_duration_minutes a - 5)
        \<le> apt_datetime a + timedelta_minutes after
          + timedelta_minutes (apt_duration_minutes a + jitter)"
      by (simp add: timedelta_minutes_def)
    moreover from r have "apt_datetime a + timedelta_minutes after
        < apt_datetime a + timedelta_minutes after
          + timedelta_minutes (apt_duration_minutes a + jitter)"
      if "5 < apt_duration_minutes a"
      using that by (simp add: timedelta_minutes_def)
    ultimately show ?thesis
      using t by blast
  qed
  with generate_appointment_timestamps [OF b] generate_appointment_duration [OF b]
  show ?thesis by blast
qed

lemma sample_treatments_duration:
  "tr \<in> set sample_treatments \<Longrightarrow> 30 \<le> tr_duration_minutes tr"
  by (auto simp: sample_treatments_def)

lemma treatment_info_select:
  assumes "treatment_info (select_treatment_info t) i = Some (d, p)"
  shows "\<exists>tr. tr \<in> snd ` set (treatments_tbl t) \<and> d = tr_duration_minutes tr"
proof -
  from assms have "(i, d, p) \<in> set (select_treatment_info t)"
    unfolding treatment_info_def by (auto dest: map_of_SomeD)
  then show ?thesis
    unfolding select_treatment_info_def by force
qed

lemma fold_insert_or_ignore_rows:
  "snd ` set (treatments_tbl (fold insert_or_ignore_treatment trs t))
     \<subseteq> snd ` set (treatments_tbl t) \<union> set trs"
proof (induction trs arbitrary: t)
  case Nil
  then show ?case by simp
next
  case (Cons tr trs)
  have "snd ` set (treatments_tbl (insert_or_ignore_treatment tr t))
          \<subseteq> snd ` set (treatments_tbl t) \<union> {tr}"
    by (auto simp: insert_or_ignore_treatment_def)
  with Cons.IH [of "insert_or_ignore_treatment tr t"] show ?case
    by auto
qed

lemma insert_sample_treatments_rows:
  assumes "snd ` set (treatments_tbl t) \<subseteq> set sample_treatments"
  shows "snd ` set (treatments_tbl (insert_sample_treatments t)) \<subseteq> set sample_treatments"
  using fold_insert_or_ignore_rows [of sample_treatments t] assms
  unfolding insert_sample_treatments_def by blast

lemma select_fresh_sample_treatments:
  "select_treatment_info (insert_sample_treatments empty_tables) = sample_rows"
  by (simp add: select_treatment_info_def insert_sample_treatments_def sample_treatments_def
      insert_or_ignore_treatment_def empty_tables_def next_id_def sample_rows_def)


section \<open>Facts about reception tasks\<close>

lemma ticks_task_target [simp]: "ticks 0 (task_target t aids pids)"
  unfolding task_target_def by (intro ticks_bind0 ticks_if) simp_all

lemma ticks_task_state [simp]: "ticks (Suc 0) (task_state c e)"
  unfolding task_state_def by (intro ticks_bind_now ticks_bind0 ticks_if) simp_all

lemma ticks_generate_reception_task:
  "ticks (Suc (Suc 0)) (generate_reception_task aids pids)"
  unfolding generate_reception_task_def Let_def
  apply (intro ticks_bind0 [of "random_choice _"] ticks_bind0 [of "task_target _ _ _"]
      ticks_case_prod)
    apply simp_all
  apply (intro ticks_bind_now ticks_bind0 [of "random_randint _ _"])
   apply simp
  apply (rule ticks_bind [of "Suc 0" _ 0, simplified])
   apply simp
  apply (intro ticks_bind0 ticks_if ticks_case_prod)
      apply simp_all
  done

lemma task_stateE:
  assumes "task_state created e w = Inr ((status, completed, actual), w')"
  obtains "created < clock_src w 0 - timedelta_days 1"
      and "status = ''Completed'' \<or> status = ''Cancelled''"
      and "status = ''Completed'' \<longrightarrow>
             (\<exists>cd ad. completed = Some cd \<and> actual = Some ad \<and> created < cd)"
      and "status = ''Cancelled'' \<longrightarrow> completed = None \<and> actual = None"
    | "\<not> created < clock_src w 0 - timedelta_days 1"
      and "status = ''Pending'' \<or> status = ''In Progress''"
      and "completed = None" and "actual = None"
proof (cases "created < clock_src w 0 - timedelta_days 1")
  case True
  from assms True have
    "(status = ''Completed'' \<or> status = ''Cancelled'') \<and>
     (status = ''Completed'' \<longrightarrow>
        (\<exists>cd ad. completed = Some cd \<and> actual = Some ad \<and> created < cd)) \<and>
     (status = ''Cancelled'' \<longrightarrow> completed = None \<and> actual = None)"
    unfolding task_state_def
    by (elim gen_bind_Inr)
       (auto dest!: datetime_now_Inr split: if_splits simp: timedelta_hours_def
         elim!: gen_bind_Inr random_choiceE random_randintE)
  with True that(1) show ?thesis by blast
next
  case False
  from assms False have
    "(status = ''Pending'' \<or> status = ''In Progress'') \<and> completed = None \<and> actual = None"
    unfolding task_state_def
    by (elim gen_bind_Inr)
       (auto dest!: datetime_now_Inr split: if_splits elim!: gen_bind_Inr random_choiceE)
  with False that(2) show ?thesis by blast
qed

lemma task_targetE:
  assumes "task_target t aids pids w = Inr (x, w')"
  obtains "clock_src w' = clock_src w"
  using ticksD [OF ticks_task_target assms] by simp

lemma datetime_nowE:
  assumes "datetime_now w = Inr (t, w')"
  obtains "t = clock_src w 0" and "clock_src w' = advance 1 (clock_src w)"
  using assms by (auto simp: datetime_now_def)

lemma generate_reception_task_state:
  assumes "generate_reception_task aids pids w = Inr (t, w')"
  shows "\<exists>w1 w2. clock_src w1 0 = clock_src w (Suc 0) \<and>
           task_state (task_created_at t) (task_estimated_duration_minutes t) w1
             = Inr ((task_status t, task_completed_date t, task_actual_duration_minutes t), w2)"
  using assms unfolding generate_reception_task_def Let_def
  apply (elim gen_bind_Inr)
  apply (auto split: prod.splits if_splits simp: advance_def
      elim!: gen_bind_Inr random_choiceE [of task_types] random_randintE task_targetE
        datetime_nowE)
   apply (metis (no_types, lifting) add_0)+
  done


lemma generate_reception_task_created:
  assumes "generate_reception_task aids pids w = Inr (t, w')"
  shows "\<exists>days. 1 \<le> days \<and> days \<le> 30 \<and>
           task_created_at t = clock_src w 0 - timedelta_days days"
  using assms unfolding generate_reception_task_def Let_def
  apply (elim gen_bind_Inr)
  apply (auto split: prod.splits if_splits
      elim!: gen_bind_Inr random_choiceE [of task_types] random_randintE task_targetE
        datetime_nowE)
  done

text \<open>
  The status of the \<open>j\<close>-th task is decided by the second clock reading of its
  iteration.
\<close>

lemma generate_reception_tasks_state:
  assumes "returned (generate_reception_tasks appointment_ids patient_ids w) = Some tasks"
    and "j < length tasks"
  shows "(task_created_at (tasks ! j) < clock_src w (2 * j + 1) - timedelta_days 1 \<longrightarrow>
            (task_status (tasks ! j) = ''Completed'' \<or> task_status (tasks ! j) = ''Cancelled'') \<and>
            (task_status (tasks ! j) = ''Completed'' \<longrightarrow>
               (\<exists>cd ad. task_completed_date (tasks ! j) = Some cd \<and>
                  task_actual_duration_minutes (tasks ! j) = Some ad \<and>
                  task_created_at (tasks ! j) < cd))) \<and>
         (\<not> task_created_at (tasks ! j) < clock_src w (2 * j + 1) - timedelta_days 1 \<longrightarrow>
            (task_status (tasks ! j) = ''Pending'' \<or> task_status (tasks ! j) = ''In Progress'') \<and>
            task_completed_date (tasks ! j) = None \<and>
            task_actual_duration_minutes (tasks ! j) = None)"
proof -
  from assms(1) obtain w' where
    run: "for_each [0..199] (\<lambda>_. generate_reception_task appointment_ids patient_ids) w
            = Inr (tasks, w')"
    by (auto simp: returned_Some generate_reception_tasks_def)
  from for_each_length [OF run] assms(2) have j: "j < length [0..199::int]"
    by simp
  from for_each_nth [OF run ticks_generate_reception_task j] obtain wj wj' where
    b: "generate_reception_task appointment_ids patient_ids wj = Inr (tasks ! j, wj')" and
    c: "clock_src wj = advance (Suc (Suc 0) * j) (clock_src w)"
    by blast
  from generate_reception_task_state [OF b] obtain w1 w2 where
    n: "clock_src w1 0 = clock_src wj (Suc 0)" and
    s: "task_state (task_created_at (tasks ! j)) (task_estimated_duration_minutes (tasks ! j)) w1
          = Inr ((task_status (tasks ! j), task_completed_date (tasks ! j),
                  task_actual_duration_minutes (tasks ! j)), w2)"
    by blast
  from n c have now: "clock_src w1 0 = clock_src w (2 * j + 1)"
    by (simp add: advance_def mult_2)
  from s show ?thesis
    unfolding now [symmetric] by (rule task_stateE) simp_all
qed


section \<open>Computations that never raise\<close>

lemma returnsD: "returns m \<Longrightarrow> \<exists>x w'. m w = Inr (x, w')"
  by (simp add: returns_def)

lemma returns_return [simp]: "returns (gen_return x)"
  by (simp add: returns_def gen_return_def)

lemma returns_bind:
  assumes "returns m" and "\<And>x. returns (f x)"
  shows "returns (gen_bind m f)"
  unfolding returns_def
proof
  fix w
  from returnsD [OF assms(1), of w] obtain x w1 where "m w = Inr (x, w1)"
    by blast
  moreover from returnsD [OF assms(2), of x w1] obtain y w2 where "f x w1 = Inr (y, w2)"
    by blast
  ultimately show "\<exists>y w'. gen_bind m f w = Inr (y, w')"
    by (simp add: gen_bind_def)
qed

lemma returns_bind_in:
  assumes "returns m" and "\<And>x w w'. m w = Inr (x, w') \<Longrightarrow> returns (f x)"
  shows "returns (gen_bind m f)"
  unfolding returns_def
proof
  fix w
  from returnsD [OF assms(1), of w] obtain x w1 where m: "m w = Inr (x, w1)"
    by blast
  from returnsD [OF assms(2) [OF m], of w1] obtain y w2 where "f x w1 = Inr (y, w2)"
    by blast
  with m show "\<exists>y w'. gen_bind m f w = Inr (y, w')"
    by (simp add: gen_bind_def)
qed

lemma returns_if:
  assumes "c \<Longrightarrow> returns m" and "\<not> c \<Longrightarrow> returns n"
  shows "returns (if c then m else n)"
  using assms by simp

lemma returns_case_prod:
  assumes "\<And>a b. returns (f a b)"
  shows "returns (case p of (a, b) \<Rightarrow> f a b)"
  using assms by (cases p) simp

lemma returns_rand_raw [simp]: "returns rand_raw"
  by (simp add: returns_def rand_raw_def)

lemma returns_fake [simp]: "returns fake"
  by (simp add: returns_def fake_def)

lemma returns_datetime_now [simp]: "returns datetime_now"
  by (simp add: returns_def datetime_now_def)

lemma returns_random_random [simp]: "returns random_random"
  unfolding random_random_def by (intro returns_bind) simp_all

lemma returns_random_randint: "a \<le> b \<Longrightarrow> returns (random_randint a b)"
  unfolding random_randint_def by (auto intro!: returns_bind)

lemma returns_random_choice: "seq \<noteq> [] \<Longrightarrow> returns (random_choice seq)"
  unfolding random_choice_def by (auto intro!: returns_bind)

lemma returns_random_uniform [simp]: "returns (random_uniform a b)"
  unfolding random_uniform_def by (intro returns_bind) simp_all

lemma returns_weighted_choice:
  assumes "choices \<noteq> []" and "0 < last (accumulate 0 (map snd choices))"
  shows "returns (weighted_choice choices)"
proof -
  from assms(1) have "accumulate 0 (map snd choices) \<noteq> []"
    by (cases choices) simp_all
  with assms show ?thesis
    unfolding weighted_choice_def random_choices_def Let_def
    by (auto intro!: returns_bind)
qed

lemma returns_task_target:
  assumes "aids \<noteq> []" and "pids \<noteq> []"
  shows "returns (task_target t aids pids)"
  unfolding task_target_def
  by (intro returns_if returns_bind returns_random_choice assms) simp_all

lemma returns_task_state: "returns (task_state c e)"
  unfolding task_state_def
  by (intro returns_if returns_bind returns_random_choice returns_random_randint) simp_all

lemma returns_generate_reception_task:
  assumes "aids \<noteq> []" and "pids \<noteq> []"
  shows "returns (generate_reception_task aids pids)"
  unfolding generate_reception_task_def Let_def
  by (intro returns_if returns_bind returns_case_prod returns_random_choice
      returns_random_randint returns_task_target returns_task_state assms)
     (simp_all add: task_types_def)

lemma returns_for_each:
  assumes "\<And>x. returns (body x)"
  shows "returns (for_each xs body)"
  unfolding returns_def using for_each_total [of xs body] assms
  by (simp add: returns_def)

lemma for_each_first:
  assumes "for_each (x # xs) body w = Inr (rs, w')" and "body x w = Inr (r, w1)"
  shows "rs \<noteq> [] \<and> rs ! 0 = r"
  using assms by (auto elim!: gen_bind_Inr)

lemmas task_simps = generate_reception_task_def task_target_def task_state_def task_types_def
  priority_map_def duration_map_def dict_get_default_def timedelta_days_def
  timedelta_hours_def

section \<open>The claims\<close>

text \<open>
  C9. Every patient that \<^verbatim>\<open>generate_patients\<close> returns has gender \<^verbatim>\<open>'M'\<close> or
  \<^verbatim>\<open>'F'\<close>; the value \<^verbatim>\<open>'Other'\<close>, which the schema of the patients table allows, is
  never generated.
\<close>

theorem generate_patients_gender:
  assumes "returned (generate_patients num_patients w) = Some patients"
    and "p \<in> set patients"
  shows "(p_gender p = ''M'' \<or> p_gender p = ''F'') \<and> p_gender p \<noteq> ''Other''"
proof -
  from assms(1) obtain w' where
    "for_each [0..num_patients - 1] (\<lambda>_. generate_patient) w = Inr (patients, w')"
    by (auto simp: returned_Some generate_patients_def)
  from for_each_set [OF this assms(2)] obtain wj wj' where
    "generate_patient wj = Inr (p, wj')"
    by blast
  from generate_patient_gender [OF this] show ?thesis by auto
qed

theorem generate_patients_gender_witness:
  "returned (generate_patients 1 (world_of [0, 3, 1, 40] 63893008800000000 0)) =
     Some [\<lparr>p_first_name = ''fake0'', p_last_name = ''fake1'', p_email = ''fake2'',
            p_phone = ''fake3'', p_date_of_birth = 729282, p_gender = ''F'',
            p_address = ''fake4'', p_insurance_type = ''Public'',
            p_primary_condition = ''Lower Back Pain'', p_registration_date = 739432,
            p_emergency_contact = ''fake5'', p_emergency_phone = ''fake6'',
            p_notes = Some ''fake7''\<rparr>] \<and>
   ''F'' \<noteq> ''Other''"
proof -
  let ?p = "\<lparr>p_first_name = ''fake0'', p_last_name = ''fake1'', p_email = ''fake2'',
            p_phone = ''fake3'', p_date_of_birth = 729282, p_gender = ''F'',
            p_address = ''fake4'', p_insurance_type = ''Public'',
            p_primary_condition = ''Lower Back Pain'', p_registration_date = 739432,
            p_emergency_contact = ''fake5'', p_emergency_phone = ''fake6'',
            p_notes = Some ''fake7''\<rparr>"
  have run: "returned (generate_patients 1 (world_of [0, 3, 1, 40] 63893008800000000 0)) =
     Some [?p]"
    by (simp add: run_simps generate_patients_def generate_patient_def
        generate_realistic_age_def PATIENT_AGE_WEIGHTS_def CONDITION_DISTRIBUTION_def
        datetime_date_def replace_newlines_def)
  from generate_patients_gender [OF run, of ?p] run show ?thesis by simp
qed

text \<open>
  C6, as the code has it. For every patient that \<^verbatim>\<open>generate_patients\<close> returns, the age
  drawn lies in the bracket bounds 25 to 90, and the birth date is the date of generation
  minus 365 days for each year of that age, leap days not counted: measured from the
  instant the birth date was computed (the first of the two clock readings of the
  patient's iteration), the time elapsed since the start of the birth date exceeds 365 days
  times the drawn age by less than one day. The age in calendar years that the birth date
  gives on the day of generation is another matter, see below.
\<close>

theorem generate_patients_age:
  assumes "returned (generate_patients num_patients w) = Some patients"
    and "j < length patients"
  shows "\<exists>age. 25 \<le> age \<and> age \<le> 90 \<and>
           p_date_of_birth (patients ! j) = datetime_date (clock_src w (2 * j)) - age * 365 \<and>
           timedelta_days (age * 365)
             \<le> clock_src w (2 * j) - timedelta_days (p_date_of_birth (patients ! j)) \<and>
           clock_src w (2 * j) - timedelta_days (p_date_of_birth (patients ! j))
             < timedelta_days (age * 365) + timedelta_days 1"
proof -
  from assms(1) obtain w' where
    run: "for_each [0..num_patients - 1] (\<lambda>_. generate_patient) w = Inr (patients, w')"
    by (auto simp: returned_Some generate_patients_def)
  from for_each_length [OF run] assms(2) have j: "j < length [0..num_patients - 1]"
    by simp
  from for_each_nth [OF run ticks_generate_patient j] obtain wj wj' where
    b: "generate_patient wj = Inr (patients ! j, wj')" and
    c: "clock_src wj = advance (Suc (Suc 0) * j) (clock_src w)"
    by blast
  from c have now: "clock_src wj 0 = clock_src w (2 * j)"
    by (simp add: advance_def mult_2)
  from generate_patient_birth [OF b] now obtain age where
    age: "25 \<le> age" "age \<le> 90" and
    dob: "p_date_of_birth (patients ! j) = datetime_date (clock_src w (2 * j)) - age * 365"
    by auto
  have "timedelta_days (age * 365)
          \<le> clock_src w (2 * j) - timedelta_days (p_date_of_birth (patients ! j))"
    and "clock_src w (2 * j) - timedelta_days (p_date_of_birth (patients ! j))
          < timedelta_days (age * 365) + timedelta_days 1"
    unfolding dob datetime_date_def by (rule birth_date_gap)+
  with age dob show ?thesis
    by (intro exI [of _ age] conjI)
qed

theorem generate_patients_age_witness:
  "returned (generate_patients 1 (world_of [0, 3, 1, 40] 63893008800000000 0)) =
     Some [\<lparr>p_first_name = ''fake0'', p_last_name = ''fake1'', p_email = ''fake2'',
            p_phone = ''fake3'', p_date_of_birth = 729282, p_gender = ''F'',
            p_address = ''fake4'', p_insurance_type = ''Public'',
            p_primary_condition = ''Lower Back Pain'', p_registration_date = 739432,
            p_emergency_contact = ''fake5'', p_emergency_phone = ''fake6'',
            p_notes = Some ''fake7''\<rparr>] \<and>
   (\<exists>age. 25 \<le> age \<and> age \<le> 90 \<and> (729282::int) = 739502 - age * 365 \<and>
      timedelta_days (age * 365) \<le> 63893008800000000 - timedelta_days 729282 \<and>
      63893008800000000 - timedelta_days 729282 < timedelta_days (age * 365) + timedelta_days 1)"
proof -
  let ?p = "\<lparr>p_first_name = ''fake0'', p_last_name = ''fake1'', p_email = ''fake2'',
            p_phone = ''fake3'', p_date_of_birth = 729282, p_gender = ''F'',
            p_address = ''fake4'', p_insurance_type = ''Public'',
            p_primary_condition = ''Lower Back Pain'', p_registration_date = 739432,
            p_emergency_contact = ''fake5'', p_emergency_phone = ''fake6'',
            p_notes = Some ''fake7''\<rparr>"
  have run: "returned (generate_patients 1 (world_of [0, 3, 1, 40] 63893008800000000 0)) =
     Some [?p]"
    by (simp add: run_simps generate_patients_def generate_patient_def
        generate_realistic_age_def PATIENT_AGE_WEIGHTS_def CONDITION_DISTRIBUTION_def
        datetime_date_def replace_newlines_def)
  from generate_patients_age [OF run, of 0] run show ?thesis
    by (simp add: clock_src_world_of datetime_date_def)
qed

text \<open>
  By the calendar the birth date does not give the drawn age back. A patient generated on
  9 September 2025 with the drawn age 25 is born on 15 September 2000, six days after the
  day 25 years before generation (9 September 2000): on the day of generation the patient
  is 24 years old.
\<close>

theorem generate_patients_age_counterexample:
  "returned (generate_realistic_age (world_of [] 63893008800000000 0)) = Some 25 \<and>
   returned (generate_patients 1 (world_of [] 63893008800000000 0)) =
     Some [\<lparr>p_first_name = ''fake0'', p_last_name = ''fake1'', p_email = ''fake2'',
            p_phone = ''fake3'', p_date_of_birth = 730377, p_gender = ''M'',
            p_address = ''fake4'', p_insurance_type = ''Public'',
            p_primary_condition = ''Lower Back Pain'', p_registration_date = 739472,
            p_emergency_contact = ''fake5'', p_emergency_phone = ''fake6'',
            p_notes = Some ''fake7''\<rparr>] \<and>
   date_ymd (datetime_date (clock_src (world_of [] 63893008800000000 0) 0)) = (2025, 9, 9) \<and>
   date_ymd 730377 = (2000, 9, 15) \<and>
   date_ymd (730377 - 6) = (2000, 9, 9) \<and>
   calendar_age 730377 (datetime_date (clock_src (world_of [] 63893008800000000 0) 0)) = 24"
proof -
  have "returned (generate_realistic_age (world_of [] 63893008800000000 0)) = Some 25"
    by (simp add: run_simps generate_realistic_age_def PATIENT_AGE_WEIGHTS_def)
  moreover have "returned (generate_patients 1 (world_of [] 63893008800000000 0)) =
     Some [\<lparr>p_first_name = ''fake0'', p_last_name = ''fake1'', p_email = ''fake2'',
            p_phone = ''fake3'', p_date_of_birth = 730377, p_gender = ''M'',
            p_address = ''fake4'', p_insurance_type = ''Public'',
            p_primary_condition = ''Lower Back Pain'', p_registration_date = 739472,
            p_emergency_contact = ''fake5'', p_emergency_phone = ''fake6'',
            p_notes = Some ''fake7''\<rparr>]"
    by (simp add: run_simps generate_patients_def generate_patient_def
        generate_realistic_age_def PATIENT_AGE_WEIGHTS_def CONDITION_DISTRIBUTION_def
        datetime_date_def replace_newlines_def)
  moreover have
    "date_ymd (datetime_date (clock_src (world_of [] 63893008800000000 0) 0)) = (2025, 9, 9)"
    by (simp add: clock_src_world_of date_ymd_def datetime_date_def DAYS_IN_MONTH_def
        DAYS_BEFORE_MONTH_def Let_def)
  moreover have "date_ymd 730377 = (2000, 9, 15)"
    by (simp add: date_ymd_def DAYS_IN_MONTH_def DAYS_BEFORE_MONTH_def Let_def)
  moreover have "date_ymd (730377 - 6) = (2000, 9, 9)"
    by (simp add: date_ymd_def DAYS_IN_MONTH_def DAYS_BEFORE_MONTH_def Let_def)
  moreover have
    "calendar_age 730377 (datetime_date (clock_src (world_of [] 63893008800000000 0) 0)) = 24"
    by (simp add: clock_src_world_of calendar_age_def date_ymd_def datetime_date_def
        DAYS_IN_MONTH_def DAYS_BEFORE_MONTH_def Let_def)
  ultimately show ?thesis
    by (intro conjI)
qed

text \<open>
  C3. The cancellations that \<^verbatim>\<open>generate_appointments\<close> returns correspond one to one
  to the returned appointments whose status is \<^verbatim>\<open>'Cancelled'\<close>: appointment identifiers
  are distinct, a cancelled appointment has exactly one cancellation record with its
  identifier, any other appointment has none, and every cancellation record carries the
  identifier of a cancelled appointment.
\<close>

theorem generate_appointments_cancellations:
  assumes "returned (generate_appointments self rows pids thids trids n w) =
             Some (appointments, cancellations)"
  shows "distinct (map apt_appointment_id appointments) \<and>
         (\<forall>a\<in>set appointments.
            length (filter (\<lambda>c. cancel_appointment_id c = apt_appointment_id a) cancellations)
              = (if apt_status a = ''Cancelled'' then 1 else 0)) \<and>
         (\<forall>c\<in>set cancellations. \<exists>a\<in>set appointments.
            apt_appointment_id a = cancel_appointment_id c \<and> apt_status a = ''Cancelled'')"
proof -
  from assms obtain rs w' where
    run: "for_each [1..n] (generate_appointment self (treatment_info rows) pids thids trids) w
       = Inr (rs, w')" and
    apps: "appointments = map fst rs" and cans: "cancellations = List.map_filter snd rs"
    by (rule generate_appointments_Inr)
  from for_each_all2 [OF run, of linked] generate_appointment_linked
  have l: "list_all2 linked [1..n] rs" by blast
  from linked_ids [OF l] apps have ids: "map apt_appointment_id appointments = [1..n]"
    by simp
  then have d: "distinct (map apt_appointment_id appointments)"
    by simp
  from linked_cancel_ids [OF l] apps cans have cids:
    "map cancel_appointment_id cancellations =
     map apt_appointment_id (filter (\<lambda>a. apt_status a = ''Cancelled'') appointments)"
    by simp
  have count: "length (filter (\<lambda>c. cancel_appointment_id c = apt_appointment_id a)
      cancellations) = (if apt_status a = ''Cancelled'' then 1 else 0)"
    if "a \<in> set appointments" for a
    using count_in_distinct_image [OF d that, of "\<lambda>a. apt_status a = ''Cancelled''"]
    by (simp add: length_filter_map_eq [of cancel_appointment_id] cids)
  have refs: "\<exists>a\<in>set appointments.
      apt_appointment_id a = cancel_appointment_id c \<and> apt_status a = ''Cancelled''"
    if "c \<in> set cancellations" for c
  proof -
    from that have "cancel_appointment_id c \<in> set (map cancel_appointment_id cancellations)"
      by simp
    then show ?thesis unfolding cids by auto
  qed
  from d count refs show ?thesis by blast
qed


theorem generate_appointments_cancellations_witness:
  "returned (generate_appointments example_generator sample_rows [1, 2, 3] [1, 2]
      [1, 2, 3, 4, 5, 6, 7, 8, 9, 10] 3 (world_of example_draws 63893008800000000 0)) =
     Some ([example_apt1, example_apt2, example_apt3], [example_cancel1]) \<and>
   distinct (map apt_appointment_id [example_apt1, example_apt2, example_apt3]) \<and>
   apt_status example_apt1 = ''Cancelled'' \<and>
   length (filter (\<lambda>c. cancel_appointment_id c = apt_appointment_id example_apt1)
     [example_cancel1]) = 1 \<and>
   apt_status example_apt2 = ''Completed'' \<and>
   length (filter (\<lambda>c. cancel_appointment_id c = apt_appointment_id example_apt2)
     [example_cancel1]) = 0 \<and>
   cancel_appointment_id example_cancel1 = apt_appointment_id example_apt1"
  using generate_appointments_cancellations [OF example_run] example_run
  by (simp add: example_apt1_def example_apt2_def example_apt3_def example_cancel1_def)

text \<open>
  C2. The \<open>j\<close>-th appointment that \<^verbatim>\<open>generate_appointments\<close> returns is compared with
  the clock reading of its own iteration, the \<open>j\<close>-th reading of the run: when its date and
  time are strictly later, its status is \<^verbatim>\<open>'Scheduled'\<close>; a status drawn from the weights
  and different from \<^verbatim>\<open>'Scheduled'\<close> occurs only at or before that reading.
\<close>

theorem generate_appointments_future_scheduled:
  assumes "returned (generate_appointments self rows pids thids trids n w) =
             Some (appointments, cancellations)"
    and "j < length appointments"
  shows "(clock_src w j < apt_datetime (appointments ! j) \<longrightarrow>
            apt_status (appointments ! j) = ''Scheduled'') \<and>
         (apt_status (appointments ! j) \<noteq> ''Scheduled'' \<longrightarrow>
            apt_datetime (appointments ! j) \<le> clock_src w j \<and>
            apt_status (appointments ! j) \<in> {''Completed'', ''Cancelled'', ''No-show''})"
proof -
  from assms obtain co wj wj' where
    b: "generate_appointment self (treatment_info rows) pids thids trids ([1..n] ! j) wj
       = Inr ((appointments ! j, co), wj')" and
    c: "clock_src wj 0 = clock_src w j"
    by (rule generate_appointments_nth)
  from generate_appointment_status [OF b] c show ?thesis
    by auto
qed

theorem generate_appointments_future_scheduled_witness:
  "returned (generate_appointments example_generator sample_rows [1, 2, 3] [1, 2]
      [1, 2, 3, 4, 5, 6, 7, 8, 9, 10] 3 (world_of example_draws 63893008800000000 0)) =
     Some ([example_apt1, example_apt2, example_apt3], [example_cancel1]) \<and>
   clock_src (world_of example_draws 63893008800000000 0) 2 < apt_datetime example_apt3 \<and>
   apt_status example_apt3 = ''Scheduled'' \<and>
   apt_status example_apt2 \<noteq> ''Scheduled'' \<and>
   apt_datetime example_apt2 \<le> clock_src (world_of example_draws 63893008800000000 0) 1"
  using generate_appointments_future_scheduled [OF example_run, of 2]
    generate_appointments_future_scheduled [OF example_run, of 1] example_run
  by (simp add: clock_src_world_of apt_datetime_def datetime_combine_def timedelta_days_def
      example_apt2_def example_apt3_def)

text \<open>
  C4. The treatments table is written by \<^verbatim>\<open>insert_sample_treatments\<close> alone, so every
  row of it is one of the ten sample treatments, of 30 to 60 minutes. On such a table
  every appointment that \<^verbatim>\<open>generate_appointments\<close> returns with status
  \<^verbatim>\<open>'Completed'\<close> has all three timestamps, check-in strictly before treatment start
  and treatment start strictly before treatment end; an appointment with any other status
  has none of the three.
\<close>

theorem generate_appointments_timestamps:
  assumes "returned (generate_appointments self (select_treatment_info t) pids thids trids n w) =
             Some (appointments, cancellations)"
    and "snd ` set (treatments_tbl t) \<subseteq> set sample_treatments"
    and "a \<in> set appointments"
  shows "(apt_status a = ''Completed'' \<longrightarrow>
            (\<exists>ci ts te. apt_check_in_time a = Some ci \<and> apt_treatment_start_time a = Some ts \<and>
               apt_treatment_end_time a = Some te \<and> ci < ts \<and> ts < te)) \<and>
         (apt_status a \<noteq> ''Completed'' \<longrightarrow>
            apt_check_in_time a = None \<and> apt_treatment_start_time a = None \<and>
            apt_treatment_end_time a = None)"
proof -
  note b = generate_appointments_timestamps_bounds [OF assms(1,3)]
  note completed = b [THEN conjunct1]
  note other = b [THEN conjunct2, THEN conjunct1]
  from b [THEN conjunct2, THEN conjunct2] obtain base_price where
    "treatment_info (select_treatment_info t) (apt_treatment_id a)
       = Some (apt_duration_minutes a, base_price)" ..
  from treatment_info_select [OF this] obtain tr where
    tr: "tr \<in> snd ` set (treatments_tbl t)" and d: "apt_duration_minutes a = tr_duration_minutes tr"
    by auto
  from tr assms(2) have "tr \<in> set sample_treatments" ..
  from sample_treatments_duration [OF this] d have long: "5 < apt_duration_minutes a"
    by simp
  have "\<exists>ci ts te. apt_check_in_time a = Some ci \<and> apt_treatment_start_time a = Some ts \<and>
               apt_treatment_end_time a = Some te \<and> ci < ts \<and> ts < te"
    if "apt_status a = ''Completed''"
  proof -
    from completed that obtain ci ts te where
      "apt_check_in_time a = Some ci" "apt_treatment_start_time a = Some ts"
      "apt_treatment_end_time a = Some te" "ci < ts" "5 < apt_duration_minutes a \<longrightarrow> ts < te"
      by auto
    with long show ?thesis
      by (intro exI [of _ ci] exI [of _ ts] exI [of _ te]) simp
  qed
  then have "apt_status a = ''Completed'' \<longrightarrow>
      (\<exists>ci ts te. apt_check_in_time a = Some ci \<and> apt_treatment_start_time a = Some ts \<and>
               apt_treatment_end_time a = Some te \<and> ci < ts \<and> ts < te)" ..
  then show ?thesis
    using other by (rule conjI)
qed


theorem generate_appointments_timestamps_witness:
  "snd ` set (treatments_tbl (insert_sample_treatments empty_tables)) \<subseteq> set sample_treatments \<and>
   returned (generate_appointments example_generator
      (select_treatment_info (insert_sample_treatments empty_tables)) [1, 2, 3] [1, 2]
      [1, 2, 3, 4, 5, 6, 7, 8, 9, 10] 3 (world_of example_draws 63893008800000000 0)) =
     Some ([example_apt1, example_apt2, example_apt3], [example_cancel1]) \<and>
   apt_status example_apt2 = ''Completed'' \<and>
   apt_check_in_time example_apt2 = Some 63886017000000000 \<and>
   apt_treatment_start_time example_apt2 = Some 63886017780000000 \<and>
   apt_treatment_end_time example_apt2 = Some 63886021080000000 \<and>
   (63886017000000000::int) < 63886017780000000 \<and>
   (63886017780000000::int) < 63886021080000000 \<and>
   apt_status example_apt1 \<noteq> ''Completed'' \<and> apt_check_in_time example_apt1 = None \<and>
   apt_treatment_start_time example_apt1 = None \<and> apt_treatment_end_time example_apt1 = None"
proof -
  have rows:
    "snd ` set (treatments_tbl (insert_sample_treatments empty_tables)) \<subseteq> set sample_treatments"
    by (rule insert_sample_treatments_rows) (simp add: empty_tables_def)
  have run: "returned (generate_appointments example_generator
      (select_treatment_info (insert_sample_treatments empty_tables)) [1, 2, 3] [1, 2]
      [1, 2, 3, 4, 5, 6, 7, 8, 9, 10] 3 (world_of example_draws 63893008800000000 0)) =
     Some ([example_apt1, example_apt2, example_apt3], [example_cancel1])"
    unfolding select_fresh_sample_treatments by (rule example_run)
  from generate_appointments_timestamps [OF run rows, of example_apt2]
    generate_appointments_timestamps [OF run rows, of example_apt1]
  have "apt_status example_apt2 = ''Completed'' \<and>
   apt_check_in_time example_apt2 = Some 63886017000000000 \<and>
   apt_treatment_start_time example_apt2 = Some 63886017780000000 \<and>
   apt_treatment_end_time example_apt2 = Some 63886021080000000 \<and>
   (63886017000000000::int) < 63886017780000000 \<and>
   (63886017780000000::int) < 63886021080000000 \<and>
   apt_status example_apt1 \<noteq> ''Completed'' \<and> apt_check_in_time example_apt1 = None \<and>
   apt_treatment_start_time example_apt1 = None \<and> apt_treatment_end_time example_apt1 = None"
    by (simp add: example_apt1_def example_apt2_def)
  with rows run show ?thesis
    by (intro conjI) (rule rows, rule run, simp_all)
qed

text \<open>
  C5. For every cancellation record that \<^verbatim>\<open>generate_appointments\<close> returns: fewer
  than 24 hours before the appointment, no refund is issued and the refund amount is 0;
  from 24 hours on, the amount is 25 when a refund is issued and 0 otherwise. A refund is
  issued only at 24 hours or more.
\<close>

theorem generate_appointments_refund_policy:
  assumes "returned (generate_appointments self rows pids thids trids n w) =
             Some (appointments, cancellations)"
    and "c \<in> set cancellations"
  shows "(cancel_hours_before_appointment c < 24 \<longrightarrow>
            \<not> cancel_refund_issued c \<and> cancel_refund_amount c = 0) \<and>
         (24 \<le> cancel_hours_before_appointment c \<longrightarrow>
            cancel_refund_amount c = (if cancel_refund_issued c then 25 else 0)) \<and>
         (cancel_refund_issued c \<longrightarrow> 24 \<le> cancel_hours_before_appointment c)"
proof -
  from assms obtain a i wj wj' where
    b: "generate_appointment self (treatment_info rows) pids thids trids i wj
       = Inr ((a, Some c), wj')"
    by (rule generate_appointments_cancel_mem)
  from generate_appointment_cancellation [OF b refl] show ?thesis
    by auto
qed

theorem generate_appointments_refund_policy_witness:
  "returned (generate_appointments example_generator sample_rows [1, 2, 3] [1, 2]
      [1, 2, 3, 4, 5, 6, 7, 8, 9, 10] 3 (world_of example_draws 63893008800000000 0)) =
     Some ([example_apt1, example_apt2, example_apt3], [example_cancel1]) \<and>
   24 \<le> cancel_hours_before_appointment example_cancel1 \<and>
   cancel_refund_issued example_cancel1 \<and> cancel_refund_amount example_cancel1 = 25"
  using generate_appointments_refund_policy [OF example_run, of example_cancel1] example_run
  by (simp add: example_cancel1_def)

text \<open>
  C10. For every cancellation record that \<^verbatim>\<open>generate_appointments\<close> returns, the
  hours before the appointment lie between 1 and 168, and the cancellation date is the
  date and time of the appointment with the same identifier minus that many hours, hence
  at least one hour before the appointment.
\<close>

theorem generate_appointments_cancellation_time:
  assumes "returned (generate_appointments self rows pids thids trids n w) =
             Some (appointments, cancellations)"
    and "c \<in> set cancellations"
  shows "1 \<le> cancel_hours_before_appointment c \<and> cancel_hours_before_appointment c \<le> 168 \<and>
         (\<exists>a\<in>set appointments.
            apt_appointment_id a = cancel_appointment_id c \<and>
            cancel_cancellation_date c =
              apt_datetime a - timedelta_hours (cancel_hours_before_appointment c) \<and>
            cancel_cancellation_date c + timedelta_hours 1 \<le> apt_datetime a)"
proof -
  from assms obtain a i wj wj' where
    b: "generate_appointment self (treatment_info rows) pids thids trids i wj
       = Inr ((a, Some c), wj')" and
    a: "a \<in> set appointments"
    by (rule generate_appointments_cancel_mem)
  from generate_appointment_cancellation [OF b refl] generate_appointment_id [OF b]
  have h: "1 \<le> cancel_hours_before_appointment c" "cancel_hours_before_appointment c \<le> 168"
    and i: "apt_appointment_id a = cancel_appointment_id c"
    and d: "cancel_cancellation_date c =
              apt_datetime a - timedelta_hours (cancel_hours_before_appointment c)"
    by simp_all
  from h(1) d have "cancel_cancellation_date c + timedelta_hours 1 \<le> apt_datetime a"
    by (simp add: timedelta_hours_def)
  with h i d a show ?thesis by blast
qed

theorem generate_appointments_cancellation_time_witness:
  "returned (generate_appointments example_generator sample_rows [1, 2, 3] [1, 2]
      [1, 2, 3, 4, 5, 6, 7, 8, 9, 10] 3 (world_of example_draws 63893008800000000 0)) =
     Some ([example_apt1, example_apt2, example_apt3], [example_cancel1]) \<and>
   cancel_hours_before_appointment example_cancel1 = 30 \<and>
   apt_appointment_id example_apt1 = cancel_appointment_id example_cancel1 \<and>
   cancel_cancellation_date example_cancel1 = apt_datetime example_apt1 - timedelta_hours 30 \<and>
   cancel_cancellation_date example_cancel1 + timedelta_hours 1 \<le> apt_datetime example_apt1"
  using generate_appointments_cancellation_time [OF example_run, of example_cancel1] example_run
  by (simp add: example_cancel1_def example_apt1_def apt_datetime_def datetime_combine_def
      timedelta_days_def timedelta_hours_def)

text \<open>
  C8. With an empty list of treatment identifiers, or no row in the treatments table,
  \<^verbatim>\<open>generate_appointments\<close> raises as soon as one appointment is requested: it
  returns no appointment list at all.
\<close>

theorem generate_appointments_empty_catalog:
  assumes "1 \<le> num_appointments" and "treatment_ids = [] \<or> rows = []"
  shows "\<exists>e. generate_appointments self rows patient_ids therapist_ids treatment_ids
           num_appointments w = Inl e"
proof -
  from assms(2) have "treatment_ids = [] \<or> treatment_info rows = Map.empty"
    by (auto simp: treatment_info_def)
  from generate_appointment_fails [OF this] obtain e where
    "generate_appointment self (treatment_info rows) patient_ids therapist_ids treatment_ids 1 w
       = Inl e"
    by blast
  moreover from assms(1) have "[1..num_appointments] = 1 # [2..num_appointments]"
    by (simp add: upto.simps)
  ultimately show ?thesis
    by (simp add: generate_appointments_def gen_bind_apply)
qed

theorem generate_appointments_empty_catalog_witness:
  "(1::int) \<le> 3 \<and>
   generate_appointments example_generator [] [1, 2, 3] [1, 2] [] 3
     (world_of example_draws 63893008800000000 0) = Inl IndexError \<and>
   generate_appointments example_generator [] [1, 2, 3] [1, 2] [1] 3
     (world_of example_draws 63893008800000000 0) = Inl KeyError"
  using generate_appointments_empty_catalog [of 3 "[]" "[]" example_generator "[1, 2, 3]" "[1, 2]"
      "world_of example_draws 63893008800000000 0"]
  by (simp add: run_simps apt_simps example_draws_def)

text \<open>
  C7. A reception task is created a whole number of days, 1 to 30, before the clock
  reading of its iteration, and its age is then tested against a second reading of the
  clock. As soon as the clock has moved between the two readings, the \<open>j\<close>-th task that
  \<^verbatim>\<open>generate_reception_tasks\<close> returns is therefore older than one day at the test:
  its status is \<^verbatim>\<open>'Completed'\<close> or \<^verbatim>\<open>'Cancelled'\<close>, when completed it has a completion
  date later than its creation and an actual duration, and it is never \<^verbatim>\<open>'Pending'\<close>
  or \<^verbatim>\<open>'In Progress'\<close>, not even when it was created exactly one day before the
  generation time it was derived from.
\<close>

theorem generate_reception_tasks_closed:
  assumes "returned (generate_reception_tasks appointment_ids patient_ids w) = Some tasks"
    and "j < length tasks"
    and "clock_src w (2 * j) < clock_src w (2 * j + 1)"
  shows "(\<exists>days. 1 \<le> days \<and> days \<le> 30 \<and>
            task_created_at (tasks ! j) = clock_src w (2 * j) - timedelta_days days) \<and>
         (task_status (tasks ! j) = ''Completed'' \<or> task_status (tasks ! j) = ''Cancelled'') \<and>
         (task_status (tasks ! j) = ''Completed'' \<longrightarrow>
            (\<exists>cd ad. task_completed_date (tasks ! j) = Some cd \<and>
               task_actual_duration_minutes (tasks ! j) = Some ad \<and>
               task_created_at (tasks ! j) < cd)) \<and>
         task_status (tasks ! j) \<noteq> ''Pending'' \<and> task_status (tasks ! j) \<noteq> ''In Progress''"
proof -
  from assms(1) obtain w' where
    run: "for_each [0..199] (\<lambda>_. generate_reception_task appointment_ids patient_ids) w
            = Inr (tasks, w')"
    by (auto simp: returned_Some generate_reception_tasks_def)
  from for_each_length [OF run] assms(2) have j: "j < length [0..199::int]"
    by simp
  from for_each_nth [OF run ticks_generate_reception_task j] obtain wj wj' where
    b: "generate_reception_task appointment_ids patient_ids wj = Inr (tasks ! j, wj')" and
    c: "clock_src wj = advance (Suc (Suc 0) * j) (clock_src w)"
    by blast
  from c have first: "clock_src wj 0 = clock_src w (2 * j)"
    by (simp add: advance_def mult_2)
  from generate_reception_task_created [OF b] first obtain days where
    d: "1 \<le> days" "days \<le> 30" and
    cr: "task_created_at (tasks ! j) = clock_src w (2 * j) - timedelta_days days"
    by auto
  from d(1) have "timedelta_days 1 \<le> timedelta_days days"
    by (simp add: timedelta_days_def)
  with cr assms(3) have old:
    "task_created_at (tasks ! j) < clock_src w (2 * j + 1) - timedelta_days 1"
    by linarith
  from generate_reception_tasks_state [OF assms(1,2)] old
  have closed:
    "task_status (tasks ! j) = ''Completed'' \<or> task_status (tasks ! j) = ''Cancelled''"
    and completed: "task_status (tasks ! j) = ''Completed'' \<longrightarrow>
            (\<exists>cd ad. task_completed_date (tasks ! j) = Some cd \<and>
               task_actual_duration_minutes (tasks ! j) = Some ad \<and>
               task_created_at (tasks ! j) < cd)"
    by simp_all
  from closed have "task_status (tasks ! j) \<noteq> ''Pending''"
    and "task_status (tasks ! j) \<noteq> ''In Progress''"
    by auto
  moreover from d cr have "\<exists>days. 1 \<le> days \<and> days \<le> 30 \<and>
      task_created_at (tasks ! j) = clock_src w (2 * j) - timedelta_days days"
    by (intro exI [of _ days]) simp
  ultimately show ?thesis
    using closed completed by (intro conjI)
qed

theorem generate_reception_tasks_closed_witness:
  "\<exists>tasks. returned (generate_reception_tasks [7] [1] (world_of [] 63893008800000000 0))
       = Some tasks \<and>
     0 < length tasks \<and>
     clock_src (world_of [] 63893008800000000 0) (2 * 0)
       < clock_src (world_of [] 63893008800000000 0) (2 * 0 + 1) \<and>
     task_created_at (tasks ! 0)
       = clock_src (world_of [] 63893008800000000 0) (2 * 0) - timedelta_days 1 \<and>
     task_status (tasks ! 0) = ''Completed'' \<and>
     task_completed_date (tasks ! 0) = Some 63892926000000000 \<and>
     task_actual_duration_minutes (tasks ! 0) = Some 1 \<and>
     task_created_at (tasks ! 0) < 63892926000000000 \<and>
     task_status (tasks ! 0) \<noteq> ''Pending'' \<and> task_status (tasks ! 0) \<noteq> ''In Progress''"
proof -
  let ?w = "world_of [] 63893008800000000 0"
  let ?t = "\<lparr>task_task_type = ''Appointment Confirmation'', task_patient_id = None,
             task_appointment_id = Some 7, task_priority = 2, task_status = ''Completed'',
             task_assigned_to = ''Sarah'', task_estimated_duration_minutes = 3,
             task_actual_duration_minutes = Some 1, task_due_date = 63893008800000000,
             task_completed_date = Some 63892926000000000, task_notes = Some ''fake0'',
             task_created_at = 63892922400000000\<rparr>"
  have total: "returns (for_each [0..199] (\<lambda>_. generate_reception_task [7] [1]))"
    by (intro returns_for_each returns_generate_reception_task) simp_all
  have up: "[0..199::int] = 0 # [1..199]"
    by (simp add: upto.simps)
  from returnsD [OF total, of ?w] obtain tasks w' where
    r: "for_each [0..199] (\<lambda>_. generate_reception_task [7] [1]) ?w = Inr (tasks, w')"
    by blast
  have b: "generate_reception_task [7] [1] ?w = Inr (?t, world_of [] 63893008800000002 (Suc 0))"
    by (simp add: run_simps task_simps)
  from r have s: "returned (generate_reception_tasks [7] [1] ?w) = Some tasks"
    by (simp add: generate_reception_tasks_def returned_def)
  from for_each_first [OF r [unfolded up] b] have f: "0 < length tasks" "tasks ! 0 = ?t"
    by simp_all
  have tick: "clock_src ?w (2 * 0) < clock_src ?w (2 * 0 + 1)"
    by (simp add: clock_src_world_of)
  from generate_reception_tasks_closed [OF s f(1) tick] s f show ?thesis
    by (intro exI [of _ tasks]) (simp add: clock_src_world_of timedelta_days_def)
qed

end
